theory Spec2Isabelle
  imports Main "HOL-Library.Word"
begin

section \<open>Go strings and errors\<close>

text \<open>
  Go strings are byte sequences, modelled as \<open>string\<close>. \<open>strings.Contains s substr\<close>
  holds when \<open>substr\<close> occurs in \<open>s\<close> as a contiguous run of bytes; the empty string
  occurs in every string.
\<close>

definition HasPrefix :: "string \<Rightarrow> string \<Rightarrow> bool" where
  "HasPrefix s pre = (take (length pre) s = pre)"

fun Contains :: "string \<Rightarrow> string \<Rightarrow> bool" where
  "Contains [] substr = (substr = [])"
| "Contains (c # s) substr = (HasPrefix (c # s) substr \<or> Contains s substr)"

text \<open>
  The errors built in \<open>internal/aidbox/client.go\<close>, one constructor for each
  \<open>fmt.Errorf\<close> of the file. The wrapped library error (\<open>%w\<close>) is kept as its text.
  \<open>Error\<close> is the method \<open>err.Error()\<close>.
\<close>

datatype error =
    MarshalError string
  | RequestError string
  | CallError string
  | ReadError string
  | ResponseError string string
  | ParseError string

fun Error :: "error \<Rightarrow> string" where
  "Error (MarshalError e) = ''failed to create YAML request body: '' @ e"
| "Error (RequestError e) = ''failed to create HTTP request: '' @ e"
| "Error (CallError e) = ''API call failed: '' @ e"
| "Error (ReadError e) = ''failed to read response body: '' @ e"
| "Error (ResponseError status body) = ''API response error: '' @ status @ ''; Body: '' @ body"
| "Error (ParseError e) = ''failed to parse YAML response: '' @ e"

section \<open>The data model of the RPC client\<close>

text \<open>Go \<open>int\<close> on a 64-bit platform.\<close>

type_synonym go_int = "64 word"

record Creator =
  ID :: string
  ResourceType :: string

record Project =
  ID :: string
  ResourceType :: string

record Info =
  Hosting :: string

record Meta =
  LastUpdated :: string
  CreatedAt :: string
  VersionID :: string

record Additional =
  ExpirationDays :: go_int
  BoxURL :: "string option"

record License =
  ID :: string
  Name :: string
  Product :: string
  Type :: string
  Expiration :: string
  Status :: string
  MaxInstances :: go_int
  Creator :: Creator
  Project :: Project
  Offline :: bool
  Created :: string
  Meta :: Meta
  Issuer :: string
  Info :: Info
  Additional :: Additional

record LicenseResponse =
  License :: License
  JWT :: string

record APIResponse_Result =
  License :: License
  JWT :: string

record APIResponse =
  Result :: APIResponse_Result

text \<open>The zero values of the structs (\<open>License{}\<close>, \<open>LicenseResponse{}\<close>).\<close>

definition zero_License :: License where
  "zero_License =
     \<lparr>License.ID = [], Name = [], Product = [], Type = [], Expiration = [], Status = [],
      MaxInstances = 0,
      Creator = \<lparr>Creator.ID = [], Creator.ResourceType = []\<rparr>,
      Project = \<lparr>Project.ID = [], Project.ResourceType = []\<rparr>,
      Offline = False, Created = [],
      Meta = \<lparr>LastUpdated = [], CreatedAt = [], VersionID = []\<rparr>,
      Issuer = [],
      Info = \<lparr>Hosting = []\<rparr>,
      Additional = \<lparr>ExpirationDays = 0, BoxURL = None\<rparr>\<rparr>"

definition zero_LicenseResponse :: LicenseResponse where
  "zero_LicenseResponse = \<lparr>LicenseResponse.License = zero_License, LicenseResponse.JWT = []\<rparr>"

section \<open>The libraries and the network\<close>

text \<open>
  A value handed to \<open>yaml.Marshal\<close>: the request body is a \<open>map[string]interface{}\<close>
  whose values are strings or maps.
\<close>

datatype yaml_value = YString string | YMap "string \<rightharpoonup> yaml_value"

record http_Request =
  Method :: string
  URL :: string
  Header :: "string \<rightharpoonup> string list"
  Body :: string

text \<open>
  A response as \<open>makeAPICall\<close> reads it: the status line, the status code, and what
  \<open>io.ReadAll(resp.Body)\<close> returns (the bytes read and a possible error).
\<close>

record http_Response =
  Status :: string
  StatusCode :: int
  Body :: "string \<times> string option"

text \<open>
  The transport handle \<open>*http.Client\<close> is its method \<open>Do\<close>: it acts on the outside
  world \<open>'w\<close> and returns an error (\<open>Inl\<close>) or a response.
\<close>

type_synonym 'w http_Client = "http_Request \<Rightarrow> 'w \<Rightarrow> (string + http_Response) \<times> 'w"

text \<open>
  The library functions and process globals the code calls; they are not part of the
  repository and are parameters of the model. A Go result \<open>(v, err)\<close> is a pair whose
  second component is \<open>None\<close> for \<open>nil\<close>.
\<close>

record 'w platform =
  yaml_Marshal :: "yaml_value \<Rightarrow> string \<times> string option"
  yaml_Unmarshal :: "string \<Rightarrow> APIResponse \<times> string option"
  http_NewRequest :: "string \<Rightarrow> string \<Rightarrow> string \<Rightarrow> http_Request \<times> string option"
  http_DefaultClient :: "'w http_Client"
  os_Environ :: "string \<rightharpoonup> string"

definition os_Getenv :: "'w platform \<Rightarrow> string \<Rightarrow> string" where
  "os_Getenv P key = (case os_Environ P key of None \<Rightarrow> [] | Some v \<Rightarrow> v)"

definition Header_Set :: "http_Request \<Rightarrow> string \<Rightarrow> string \<Rightarrow> http_Request" where
  "Header_Set req key val = req\<lparr>Header := (Header req)(key \<mapsto> [val])\<rparr>"

section \<open>The client interface\<close>

text \<open>
  The interface \<open>Client\<close> of \<open>provider.go\<close>, which the RPC client satisfies: three
  methods acting on the outside world.
\<close>

record 'w Client =
  CreateLicense :: "string \<Rightarrow> string \<Rightarrow> string \<Rightarrow> 'w \<Rightarrow> (LicenseResponse \<times> error option) \<times> 'w"
  GetLicense :: "string \<Rightarrow> 'w \<Rightarrow> (LicenseResponse \<times> error option) \<times> 'w"
  DeleteLicense :: "string \<Rightarrow> 'w \<Rightarrow> error option \<times> 'w"

section \<open>The RPC client (internal/aidbox/client.go)\<close>

record 'w HTTPClient =
  Endpoint :: string
  Token :: string
  Client :: "'w http_Client"

definition NewClient :: "'w platform \<Rightarrow> string \<Rightarrow> string \<Rightarrow> 'w HTTPClient" where
  "NewClient P endpoint token =
     \<lparr>Endpoint = endpoint, Token = token, Client = http_DefaultClient P\<rparr>"

text \<open>
  \<open>makeAPICall\<close>: every early return of the source is a branch. Here and in the
  methods below the calls to the logger are left out (they change no value a function
  returns). The status test is the source's \<open>resp.StatusCode != http.StatusOK\<close>.
\<close>

definition makeAPICall ::
  "'w platform \<Rightarrow> 'w HTTPClient \<Rightarrow> string \<Rightarrow> (string \<rightharpoonup> yaml_value) \<Rightarrow> 'w
     \<Rightarrow> (string \<times> error option) \<times> 'w" where
  "makeAPICall P c method params w =
     (let requestBody = YMap [''method'' \<mapsto> YString method, ''params'' \<mapsto> YMap params] in
      case yaml_Marshal P requestBody of
        (yamlData, Some err) \<Rightarrow> (([], Some (MarshalError err)), w)
      | (yamlData, None) \<Rightarrow>
          (case http_NewRequest P ''POST'' (Endpoint c) yamlData of
             (req, Some err) \<Rightarrow> (([], Some (RequestError err)), w)
           | (req, None) \<Rightarrow>
               (let req = Header_Set req ''Content-Type'' ''text/yaml'';
                    req = Header_Set req ''Accept'' ''text/yaml''
                in case Client c req w of
                     (Inl err, w') \<Rightarrow> (([], Some (CallError err)), w')
                   | (Inr resp, w') \<Rightarrow>
                       (case http_Response.Body resp of
                          (bodyBytes, Some err) \<Rightarrow> (([], Some (ReadError err)), w')
                        | (bodyBytes, None) \<Rightarrow>
                            if StatusCode resp \<noteq> 200
                            then (([], Some (ResponseError (Status resp) bodyBytes)), w')
                            else ((bodyBytes, None), w')))))"

definition parseYAMLResponse :: "'w platform \<Rightarrow> string \<Rightarrow> LicenseResponse \<times> error option" where
  "parseYAMLResponse P bodyBytes =
     (case yaml_Unmarshal P bodyBytes of
        (apiResp, Some err) \<Rightarrow> (zero_LicenseResponse, Some (ParseError err))
      | (apiResp, None) \<Rightarrow>
          (\<lparr>LicenseResponse.License = APIResponse_Result.License (Result apiResp),
            LicenseResponse.JWT = APIResponse_Result.JWT (Result apiResp)\<rparr>, None))"

definition CreateLicense ::
  "'w platform \<Rightarrow> 'w HTTPClient \<Rightarrow> string \<Rightarrow> string \<Rightarrow> string \<Rightarrow> 'w
     \<Rightarrow> (LicenseResponse \<times> error option) \<times> 'w" where
  "CreateLicense P c name product licenseType w =
     (let params = [''token'' \<mapsto> YString (Token c), ''name'' \<mapsto> YString name,
                    ''product'' \<mapsto> YString product, ''type'' \<mapsto> YString licenseType]
      in case makeAPICall P c ''portal.portal/issue-license'' params w of
           ((bodyBytes, Some err), w') \<Rightarrow> ((zero_LicenseResponse, Some err), w')
         | ((bodyBytes, None), w') \<Rightarrow>
             (case parseYAMLResponse P bodyBytes of
                (apiResp, Some parseErr) \<Rightarrow> ((zero_LicenseResponse, Some parseErr), w')
              | (apiResp, None) \<Rightarrow> ((apiResp, None), w')))"

definition GetLicense ::
  "'w platform \<Rightarrow> 'w HTTPClient \<Rightarrow> string \<Rightarrow> 'w \<Rightarrow> (LicenseResponse \<times> error option) \<times> 'w" where
  "GetLicense P c licenseID w =
     (let params = [''token'' \<mapsto> YString (Token c), ''id'' \<mapsto> YString licenseID]
      in case makeAPICall P c ''portal.portal/get-license'' params w of
           ((bodyBytes, Some err), w') \<Rightarrow>
             if Contains (Error err) ''You are not a member of the project''
             then ((zero_LicenseResponse, None), w')
             else ((zero_LicenseResponse, Some err), w')
         | ((bodyBytes, None), w') \<Rightarrow>
             (case parseYAMLResponse P bodyBytes of
                (apiResp, Some parseErr) \<Rightarrow> ((zero_LicenseResponse, Some parseErr), w')
              | (apiResp, None) \<Rightarrow> ((apiResp, None), w')))"

definition DeleteLicense :: "'w platform \<Rightarrow> 'w HTTPClient \<Rightarrow> string \<Rightarrow> 'w \<Rightarrow> error option \<times> 'w" where
  "DeleteLicense P c licenseID w =
     (case makeAPICall P c ''portal.portal/remove-license''
             [''token'' \<mapsto> YString (Token c), ''id'' \<mapsto> YString licenseID] w of
        ((bodyBytes, err), w') \<Rightarrow> (err, w'))"

section \<open>The plugin framework\<close>

text \<open>
  The host framework is not part of the repository; the model below keeps what the
  adapter relies on. An attribute value (\<open>types.String\<close>, \<open>types.Int64\<close>,
  \<open>types.Bool\<close>) is null, unknown or known; the zero value of the Go type is null.
\<close>

datatype 'a attr_value = ValueNull | ValueUnknown | ValueKnown 'a

type_synonym types_String = "string attr_value"
type_synonym types_Int64 = "64 word attr_value"
type_synonym types_Bool = "bool attr_value"

definition IsNull :: "'a attr_value \<Rightarrow> bool" where
  "IsNull v = (case v of ValueNull \<Rightarrow> True | _ \<Rightarrow> False)"

definition IsUnknown :: "'a attr_value \<Rightarrow> bool" where
  "IsUnknown v = (case v of ValueUnknown \<Rightarrow> True | _ \<Rightarrow> False)"

definition ValueString :: "types_String \<Rightarrow> string" where
  "ValueString v = (case v of ValueKnown s \<Rightarrow> s | _ \<Rightarrow> [])"

definition NewStringValue :: "string \<Rightarrow> types_String" where
  "NewStringValue s = ValueKnown s"

definition NewInt64Value :: "64 word \<Rightarrow> types_Int64" where
  "NewInt64Value n = ValueKnown n"

definition NewBoolValue :: "bool \<Rightarrow> types_Bool" where
  "NewBoolValue b = ValueKnown b"

text \<open>The conversion \<open>int64(n)\<close> of a Go \<open>int\<close>.\<close>

definition int64 :: "go_int \<Rightarrow> 64 word" where
  "int64 n = scast n"

datatype diagnostic =
    ErrorDiagnostic string string
  | WarningDiagnostic string string

fun is_error_diagnostic :: "diagnostic \<Rightarrow> bool" where
  "is_error_diagnostic (ErrorDiagnostic summary detail) = True"
| "is_error_diagnostic (WarningDiagnostic summary detail) = False"

definition HasError :: "diagnostic list \<Rightarrow> bool" where
  "HasError diags = list_ex is_error_diagnostic diags"

text \<open>\<open>Diagnostics.Append\<close> skips a diagnostic that is already in the list.\<close>

fun Append :: "diagnostic list \<Rightarrow> diagnostic list \<Rightarrow> diagnostic list" where
  "Append diags [] = diags"
| "Append diags (d # ds) = Append (if d \<in> set diags then diags else diags @ [d]) ds"

definition AddError :: "diagnostic list \<Rightarrow> string \<Rightarrow> string \<Rightarrow> diagnostic list" where
  "AddError diags summary detail = Append diags [ErrorDiagnostic summary detail]"

text \<open>
  A plan, a state or a configuration holds an object of the schema, or is null (a
  resource that is absent). \<open>Get\<close> decodes it into a target struct and reports an
  error for a null value, leaving the target as it was; \<open>Set\<close> stores a struct;
  \<open>RemoveResource\<close> makes the state null.
\<close>

datatype 'm tfsdk_data = NullData | ObjectData 'm

fun Get :: "'m tfsdk_data \<Rightarrow> 'm \<Rightarrow> diagnostic list \<times> 'm" where
  "Get (ObjectData v) target = ([], v)"
| "Get NullData target =
     ([ErrorDiagnostic ''Value Conversion Error'' ''unhandled null values''], target)"

definition Set :: "'m \<Rightarrow> 'm tfsdk_data \<Rightarrow> diagnostic list \<times> 'm tfsdk_data" where
  "Set v st = ([], ObjectData v)"

definition RemoveResource :: "'m tfsdk_data \<Rightarrow> 'm tfsdk_data" where
  "RemoveResource st = NullData"

section \<open>The provider (provider.go)\<close>

text \<open>\<open>*HTTPClient\<close> satisfies the interface with its three methods.\<close>

definition HTTPClient_as_Client :: "'w platform \<Rightarrow> 'w HTTPClient \<Rightarrow> 'w Client" where
  "HTTPClient_as_Client P c =
     \<lparr>Client.CreateLicense = CreateLicense P c,
      Client.GetLicense = GetLicense P c,
      Client.DeleteLicense = DeleteLicense P c\<rparr>"

record AidboxProviderModel =
  Endpoint :: types_String
  Token :: types_String

definition zero_AidboxProviderModel :: AidboxProviderModel where
  "zero_AidboxProviderModel =
     \<lparr>AidboxProviderModel.Endpoint = ValueNull, AidboxProviderModel.Token = ValueNull\<rparr>"

record 'w ProviderData =
  Endpoint :: string
  Token :: string
  Client :: "'w Client"

record ConfigureRequest =
  Config :: "AidboxProviderModel tfsdk_data"

record 'w ConfigureResponse =
  Diagnostics :: "diagnostic list"
  DataSourceData :: "'w http_Client option"
  ResourceData :: "'w ProviderData option"

definition Configure ::
  "'w platform \<Rightarrow> ConfigureRequest \<Rightarrow> 'w ConfigureResponse \<Rightarrow> 'w ConfigureResponse" where
  "Configure P req resp =
     (let (diags, data) = Get (Config req) zero_AidboxProviderModel;
          resp = resp\<lparr>ConfigureResponse.Diagnostics :=
                        Append (ConfigureResponse.Diagnostics resp) diags\<rparr>
      in if HasError (ConfigureResponse.Diagnostics resp) then resp
         else
           let data =
                 (if IsNull (AidboxProviderModel.Endpoint data)
                     \<or> IsUnknown (AidboxProviderModel.Endpoint data)
                     \<or> ValueString (AidboxProviderModel.Endpoint data) = []
                  then data\<lparr>AidboxProviderModel.Endpoint := NewStringValue ''https://aidbox.app/rpc''\<rparr>
                  else data)
           in case (if IsNull (AidboxProviderModel.Token data)
                       \<or> IsUnknown (AidboxProviderModel.Token data)
                       \<or> ValueString (AidboxProviderModel.Token data) = []
                    then
                      (let tokenEnv = os_Getenv P ''AIDBOX_API_TOKEN''
                       in if tokenEnv \<noteq> []
                          then Inr (data\<lparr>AidboxProviderModel.Token := NewStringValue tokenEnv\<rparr>)
                          else Inl (resp\<lparr>ConfigureResponse.Diagnostics :=
                                 AddError (ConfigureResponse.Diagnostics resp) ''No API Token Provided''
                                   ''Please provide a 'token' in the provider configuration or through the 'AIDBOX_API_TOKEN' environment variable.''\<rparr>))
                    else Inr data) of
                Inl resp \<Rightarrow> resp
              | Inr data \<Rightarrow>
                  resp\<lparr>DataSourceData := Some (http_DefaultClient P),
                       ResourceData := Some
                         \<lparr>ProviderData.Endpoint = ValueString (AidboxProviderModel.Endpoint data),
                          ProviderData.Token = ValueString (AidboxProviderModel.Token data),
                          ProviderData.Client =
                            HTTPClient_as_Client P
                              (NewClient P (ValueString (AidboxProviderModel.Endpoint data))
                                           (ValueString (AidboxProviderModel.Token data)))\<rparr>\<rparr>)"

section \<open>The resource adapter (license_resource.go)\<close>

text \<open>
  \<open>client\<close> is a Go interface value: \<open>None\<close> is \<open>nil\<close>, which is what
  \<open>NewLicenseResource\<close> returns and what stays when the resource is configured with
  no provider data.
\<close>

record 'w LicenseResource =
  client :: "'w Client option"
  endpoint :: string
  token :: string

definition NewLicenseResource :: "'w LicenseResource" where
  "NewLicenseResource = \<lparr>client = None, endpoint = [], token = []\<rparr>"

record LicenseResourceModel =
  ID :: types_String
  Name :: types_String
  Product :: types_String
  Type :: types_String
  Expiration :: types_String
  Status :: types_String
  MaxInstances :: types_Int64
  CreatorID :: types_String
  ProjectID :: types_String
  Offline :: types_Bool
  Created :: types_String
  MetaLastUpdated :: types_String
  MetaCreatedAt :: types_String
  MetaVersionID :: types_String
  Issuer :: types_String
  InfoHosting :: types_String
  JWT :: types_String

definition zero_LicenseResourceModel :: LicenseResourceModel where
  "zero_LicenseResourceModel =
     \<lparr>LicenseResourceModel.ID = ValueNull, Name = ValueNull, Product = ValueNull,
      Type = ValueNull, Expiration = ValueNull, Status = ValueNull, MaxInstances = ValueNull,
      CreatorID = ValueNull, ProjectID = ValueNull, Offline = ValueNull, Created = ValueNull,
      MetaLastUpdated = ValueNull, MetaCreatedAt = ValueNull, MetaVersionID = ValueNull,
      Issuer = ValueNull, InfoHosting = ValueNull, JWT = ValueNull\<rparr>"

text \<open>
  The value \<open>req.ProviderData\<close> of the resource's \<open>Configure\<close>: a \<open>*ProviderData\<close>
  or a value of some other type, given by the name that \<open>%T\<close> prints.
\<close>

datatype 'w any = ProviderDataPtr "'w ProviderData" | OtherValue string

definition LicenseResource_Configure ::
  "'w LicenseResource \<Rightarrow> 'w any option \<Rightarrow> diagnostic list
     \<Rightarrow> 'w LicenseResource \<times> diagnostic list" where
  "LicenseResource_Configure r providerData diags =
     (case providerData of
        None \<Rightarrow> (r, diags)
      | Some (OtherValue typeName) \<Rightarrow>
          (r, AddError diags ''Unexpected Resource Configure Type''
                (''Expected *ProviderData, got: '' @ typeName
                  @ ''. Please report this issue to the provider developers.''))
      | Some (ProviderDataPtr data) \<Rightarrow>
          (\<lparr>client = Some (ProviderData.Client data),
            endpoint = ProviderData.Endpoint data,
            token = ProviderData.Token data\<rparr>, diags))"

definition mapModelFromAPIResponse ::
  "LicenseResourceModel \<Rightarrow> LicenseResponse \<Rightarrow> LicenseResourceModel" where
  "mapModelFromAPIResponse model apiResp =
     (let lic = LicenseResponse.License apiResp in
      model\<lparr>LicenseResourceModel.ID := NewStringValue (License.ID lic),
            LicenseResourceModel.Name := NewStringValue (License.Name lic),
            LicenseResourceModel.Product := NewStringValue (License.Product lic),
            LicenseResourceModel.Type := NewStringValue (License.Type lic),
            LicenseResourceModel.Expiration := NewStringValue (License.Expiration lic),
            LicenseResourceModel.Status := NewStringValue (License.Status lic),
            LicenseResourceModel.MaxInstances := NewInt64Value (int64 (License.MaxInstances lic)),
            CreatorID := NewStringValue (Creator.ID (License.Creator lic)),
            ProjectID := NewStringValue (Project.ID (License.Project lic)),
            LicenseResourceModel.Offline := NewBoolValue (License.Offline lic),
            LicenseResourceModel.Created := NewStringValue (License.Created lic),
            MetaLastUpdated := NewStringValue (LastUpdated (License.Meta lic)),
            MetaCreatedAt := NewStringValue (CreatedAt (License.Meta lic)),
            MetaVersionID := NewStringValue (VersionID (License.Meta lic)),
            LicenseResourceModel.Issuer := NewStringValue (License.Issuer lic),
            InfoHosting := NewStringValue (Hosting (License.Info lic)),
            LicenseResourceModel.JWT := NewStringValue (LicenseResponse.JWT apiResp)\<rparr>)"

record CreateRequest =
  Plan :: "LicenseResourceModel tfsdk_data"

record ReadRequest =
  State :: "LicenseResourceModel tfsdk_data"

record UpdateRequest =
  Plan :: "LicenseResourceModel tfsdk_data"
  State :: "LicenseResourceModel tfsdk_data"

record DeleteRequest =
  State :: "LicenseResourceModel tfsdk_data"

text \<open>
  The four response types of the framework have the same two fields the adapter
  writes. A lifecycle method receives the response and returns it updated; the result
  \<open>None\<close> is the panic of a method call on the nil interface value.
\<close>

record Response =
  State :: "LicenseResourceModel tfsdk_data"
  Diagnostics :: "diagnostic list"

type_synonym CreateResponse = Response
type_synonym ReadResponse = Response
type_synonym UpdateResponse = Response
type_synonym DeleteResponse = Response

definition Create ::
  "'w LicenseResource \<Rightarrow> CreateRequest \<Rightarrow> CreateResponse \<Rightarrow> 'w
     \<Rightarrow> (CreateResponse \<times> 'w) option" where
  "Create r req resp w =
     (let (diags, model) = Get (CreateRequest.Plan req) zero_LicenseResourceModel;
          resp = resp\<lparr>Response.Diagnostics := Append (Response.Diagnostics resp) diags\<rparr>
      in if HasError (Response.Diagnostics resp) then Some (resp, w)
         else
           (case client r of
              None \<Rightarrow> None
            | Some c \<Rightarrow>
                (case Client.CreateLicense c (ValueString (LicenseResourceModel.Name model))
                        (ValueString (LicenseResourceModel.Product model))
                        (ValueString (LicenseResourceModel.Type model)) w of
                   ((apiResp, Some err), w') \<Rightarrow>
                     Some (resp\<lparr>Response.Diagnostics :=
                              AddError (Response.Diagnostics resp) ''API Call Failed'' (Error err)\<rparr>, w')
                 | ((apiResp, None), w') \<Rightarrow>
                     (let model = mapModelFromAPIResponse model apiResp;
                          (diags, st) = Set model (Response.State resp)
                      in Some (resp\<lparr>Response.State := st,
                                     Response.Diagnostics :=
                                       Append (Response.Diagnostics resp) diags\<rparr>, w')))))"

definition Read ::
  "'w LicenseResource \<Rightarrow> ReadRequest \<Rightarrow> ReadResponse \<Rightarrow> 'w
     \<Rightarrow> (ReadResponse \<times> 'w) option" where
  "Read r req resp w =
     (let (diags, model) = Get (ReadRequest.State req) zero_LicenseResourceModel;
          resp = resp\<lparr>Response.Diagnostics := Append (Response.Diagnostics resp) diags\<rparr>
      in if HasError (Response.Diagnostics resp) then Some (resp, w)
         else if IsUnknown (LicenseResourceModel.ID model)
                 \<or> IsNull (LicenseResourceModel.ID model)
                 \<or> ValueString (LicenseResourceModel.ID model) = []
         then Some (resp\<lparr>Response.Diagnostics :=
                      AddError (Response.Diagnostics resp) ''No ID Present''
                        ''An ID must be present to read the License''\<rparr>, w)
         else
           (case client r of
              None \<Rightarrow> None
            | Some c \<Rightarrow>
                (case Client.GetLicense c (ValueString (LicenseResourceModel.ID model)) w of
                   ((apiResp, Some err), w') \<Rightarrow>
                     Some (resp\<lparr>Response.Diagnostics :=
                              AddError (Response.Diagnostics resp) ''Failed to Fetch License''
                                (''Unable to fetch license: '' @ Error err)\<rparr>, w')
                 | ((apiResp, None), w') \<Rightarrow>
                     (let model = mapModelFromAPIResponse model apiResp;
                          (diags, st) = Set model (Response.State resp)
                      in Some (resp\<lparr>Response.State := st,
                                     Response.Diagnostics :=
                                       Append (Response.Diagnostics resp) diags\<rparr>, w')))))"

definition Update ::
  "'w LicenseResource \<Rightarrow> UpdateRequest \<Rightarrow> UpdateResponse \<Rightarrow> 'w \<Rightarrow> UpdateResponse \<times> 'w" where
  "Update r req resp w =
     (let (diags, data) = Get (UpdateRequest.Plan req) zero_LicenseResourceModel;
          resp = resp\<lparr>Response.Diagnostics := Append (Response.Diagnostics resp) diags\<rparr>
      in if HasError (Response.Diagnostics resp) then (resp, w)
         else
           (let (diags, st) = Set data (Response.State resp)
            in (resp\<lparr>Response.State := st,
                      Response.Diagnostics := Append (Response.Diagnostics resp) diags\<rparr>, w)))"

definition Delete ::
  "'w LicenseResource \<Rightarrow> DeleteRequest \<Rightarrow> DeleteResponse \<Rightarrow> 'w
     \<Rightarrow> (DeleteResponse \<times> 'w) option" where
  "Delete r req resp w =
     (let (diags, model) = Get (DeleteRequest.State req) zero_LicenseResourceModel;
          resp = resp\<lparr>Response.Diagnostics := Append (Response.Diagnostics resp) diags\<rparr>
      in if HasError (Response.Diagnostics resp) then Some (resp, w)
         else if IsNull (LicenseResourceModel.ID model)
                 \<or> IsUnknown (LicenseResourceModel.ID model)
                 \<or> ValueString (LicenseResourceModel.ID model) = []
         then Some (resp\<lparr>Response.Diagnostics :=
                      AddError (Response.Diagnostics resp) ''No ID Found''
                        ''Cannot delete the License without an ID.''\<rparr>, w)
         else
           (case client r of
              None \<Rightarrow> None
            | Some c \<Rightarrow>
                (case Client.DeleteLicense c (ValueString (LicenseResourceModel.ID model)) w of
                   (Some err, w') \<Rightarrow>
                     Some (resp\<lparr>Response.Diagnostics :=
                              AddError (Response.Diagnostics resp) ''Failed to Delete License''
                                (''Error while trying to delete the License with ID ''
                                  @ ValueString (LicenseResourceModel.ID model) @ '': '' @ Error err)\<rparr>, w')
                 | (None, w') \<Rightarrow>
                     Some (resp\<lparr>Response.State := RemoveResource (Response.State resp)\<rparr>, w'))))"

section \<open>Notions of the specification and test doubles\<close>

definition absent :: "types_String \<Rightarrow> bool" where
  "absent v = (IsNull v \<or> IsUnknown v \<or> ValueString v = [])"

datatype client_call = CreateCall string string string | GetCall string | DeleteCall string

definition recording_Client ::
  "LicenseResponse \<times> error option \<Rightarrow> error option \<Rightarrow> client_call list Client" where
  "recording_Client result deleteErr =
     \<lparr>Client.CreateLicense = (\<lambda>name product licenseType w. (result, w @ [CreateCall name product licenseType])),
      Client.GetLicense = (\<lambda>licenseID w. (result, w @ [GetCall licenseID])),
      Client.DeleteLicense = (\<lambda>licenseID w. (deleteErr, w @ [DeleteCall licenseID]))\<rparr>"

definition example_License :: License where
  "example_License =
     \<lparr>License.ID = ''lic-1'', Name = ''license-one'', Product = ''aidbox'', Type = ''development'',
      Expiration = ''2030-01-01T00:00:00Z'', Status = ''active'', MaxInstances = 2,
      Creator = \<lparr>Creator.ID = ''user-1'', Creator.ResourceType = ''User''\<rparr>,
      Project = \<lparr>Project.ID = ''proj-1'', Project.ResourceType = ''Project''\<rparr>,
      Offline = False, Created = ''2024-01-01T00:00:00Z'',
      Meta = \<lparr>LastUpdated = ''2024-01-02T00:00:00Z'', CreatedAt = ''2024-01-01T00:00:00Z'',
              VersionID = ''7''\<rparr>,
      Issuer = ''https://aidbox.app'',
      Info = \<lparr>Hosting = ''self-hosted''\<rparr>,
      Additional = \<lparr>ExpirationDays = 0, BoxURL = None\<rparr>\<rparr>"

definition example_LicenseResponse :: LicenseResponse where
  "example_LicenseResponse =
     \<lparr>LicenseResponse.License = example_License, LicenseResponse.JWT = ''jwt-1''\<rparr>"

definition example_plan :: LicenseResourceModel where
  "example_plan =
     \<lparr>LicenseResourceModel.ID = ValueUnknown, Name = ValueKnown ''planned-name'',
      Product = ValueKnown ''planned-product'', Type = ValueKnown ''planned-type'',
      Expiration = ValueUnknown, Status = ValueUnknown, MaxInstances = ValueUnknown,
      CreatorID = ValueUnknown, ProjectID = ValueUnknown, Offline = ValueUnknown,
      Created = ValueUnknown, MetaLastUpdated = ValueUnknown, MetaCreatedAt = ValueUnknown,
      MetaVersionID = ValueUnknown, Issuer = ValueUnknown, InfoHosting = ValueUnknown,
      JWT = ValueUnknown\<rparr>"

definition example_state :: LicenseResourceModel where
  "example_state =
     \<lparr>LicenseResourceModel.ID = ValueKnown ''lic-0'', Name = ValueKnown ''old-name'',
      Product = ValueKnown ''old-product'', Type = ValueKnown ''old-type'',
      Expiration = ValueKnown ''old'', Status = ValueKnown ''old'', MaxInstances = ValueKnown 9,
      CreatorID = ValueKnown ''old'', ProjectID = ValueKnown ''old'', Offline = ValueKnown True,
      Created = ValueKnown ''old'', MetaLastUpdated = ValueKnown ''old'',
      MetaCreatedAt = ValueKnown ''old'', MetaVersionID = ValueKnown ''old'',
      Issuer = ValueKnown ''old'', InfoHosting = ValueKnown ''old'', JWT = ValueKnown ''old''\<rparr>"

definition response_fields :: "LicenseResponse \<Rightarrow> LicenseResourceModel" where
  "response_fields apiResp =
     \<lparr>LicenseResourceModel.ID = ValueKnown (License.ID (LicenseResponse.License apiResp)),
      Name = ValueKnown (License.Name (LicenseResponse.License apiResp)),
      Product = ValueKnown (License.Product (LicenseResponse.License apiResp)),
      Type = ValueKnown (License.Type (LicenseResponse.License apiResp)),
      Expiration = ValueKnown (License.Expiration (LicenseResponse.License apiResp)),
      Status = ValueKnown (License.Status (LicenseResponse.License apiResp)),
      MaxInstances = ValueKnown (License.MaxInstances (LicenseResponse.License apiResp)),
      CreatorID = ValueKnown (Creator.ID (License.Creator (LicenseResponse.License apiResp))),
      ProjectID = ValueKnown (Project.ID (License.Project (LicenseResponse.License apiResp))),
      Offline = ValueKnown (License.Offline (LicenseResponse.License apiResp)),
      Created = ValueKnown (License.Created (LicenseResponse.License apiResp)),
      MetaLastUpdated = ValueKnown (LastUpdated (License.Meta (LicenseResponse.License apiResp))),
      MetaCreatedAt = ValueKnown (CreatedAt (License.Meta (LicenseResponse.License apiResp))),
      MetaVersionID = ValueKnown (VersionID (License.Meta (LicenseResponse.License apiResp))),
      Issuer = ValueKnown (License.Issuer (LicenseResponse.License apiResp)),
      InfoHosting = ValueKnown (Hosting (License.Info (LicenseResponse.License apiResp))),
      JWT = ValueKnown (LicenseResponse.JWT apiResp)\<rparr>"

text \<open>
  The request the shared request path builds for a method and its parameters, or the
  error of building it: the part of \<open>makeAPICall\<close> before the transport is used.
\<close>

definition request_of ::
  "'w platform \<Rightarrow> 'w HTTPClient \<Rightarrow> string \<Rightarrow> (string \<rightharpoonup> yaml_value) \<Rightarrow> error + http_Request" where
  "request_of P c method params =
     (case yaml_Marshal P (YMap [''method'' \<mapsto> YString method, ''params'' \<mapsto> YMap params]) of
        (yamlData, Some err) \<Rightarrow> Inl (MarshalError err)
      | (yamlData, None) \<Rightarrow>
          (case http_NewRequest P ''POST'' (HTTPClient.Endpoint c) yamlData of
             (req, Some err) \<Rightarrow> Inl (RequestError err)
           | (req, None) \<Rightarrow>
               Inr (Header_Set (Header_Set req ''Content-Type'' ''text/yaml'')
                      ''Accept'' ''text/yaml'')))"

definition is_2xx :: "int \<Rightarrow> bool" where
  "is_2xx code = (200 \<le> code \<and> code < 300)"

definition license_id_params :: "'w HTTPClient \<Rightarrow> string \<Rightarrow> (string \<rightharpoonup> yaml_value)" where
  "license_id_params c licenseID =
     [''token'' \<mapsto> YString (HTTPClient.Token c), ''id'' \<mapsto> YString licenseID]"

definition issue_license_params ::
  "'w HTTPClient \<Rightarrow> string \<Rightarrow> string \<Rightarrow> string \<Rightarrow> (string \<rightharpoonup> yaml_value)" where
  "issue_license_params c name product licenseType =
     [''token'' \<mapsto> YString (HTTPClient.Token c), ''name'' \<mapsto> YString name,
      ''product'' \<mapsto> YString product, ''type'' \<mapsto> YString licenseType]"

text \<open>
  Stand-ins for the libraries and the network, used to run the model on concrete
  inputs. The world is the list of the requests sent; the transport answers every
  request with the same \<open>reply\<close>.
\<close>

definition zero_APIResponse :: APIResponse where
  "zero_APIResponse =
     \<lparr>Result = \<lparr>APIResponse_Result.License = zero_License, APIResponse_Result.JWT = []\<rparr>\<rparr>"

definition stub_Marshal :: "yaml_value \<Rightarrow> string \<times> string option" where
  "stub_Marshal v =
     (case v of
        YString s \<Rightarrow> (s, None)
      | YMap m \<Rightarrow>
          (case m ''method'' of
             Some (YString method) \<Rightarrow> (''method: '' @ method, None)
           | _ \<Rightarrow> (''{}'', None)))"

text \<open>
  The stand-in for \<open>yaml.Unmarshal\<close> into the envelope struct is a table of three
  bodies, with the library's answer for each: \<open>[\<close> is not a YAML document and is
  refused; the empty mapping \<open>{}\<close> has none of the struct's keys and leaves the struct
  at its zero value, with no error; the third body sets the license id and the JWT and
  nothing else. A body outside the table is refused by the stand-in itself: no run below
  decodes one.
\<close>

definition example_APIResponse :: APIResponse where
  "example_APIResponse =
     \<lparr>Result = \<lparr>APIResponse_Result.License = zero_License\<lparr>License.ID := ''lic-1''\<rparr>,
                 APIResponse_Result.JWT = ''jwt-1''\<rparr>\<rparr>"

definition stub_Unmarshal :: "string \<Rightarrow> APIResponse \<times> string option" where
  "stub_Unmarshal body =
     (if body = ''['' then (zero_APIResponse, Some ''yaml: line 1: did not find expected node content'')
      else if body = ''{}'' then (zero_APIResponse, None)
      else if body = ''result: {license: {id: lic-1}, jwt: jwt-1}'' then (example_APIResponse, None)
      else (zero_APIResponse, Some ''stand-in: body outside the table''))"

definition stub_NewRequest :: "string \<Rightarrow> string \<Rightarrow> string \<Rightarrow> http_Request \<times> string option" where
  "stub_NewRequest method url body =
     (if HasPrefix url ''://''
      then (\<lparr>Method = [], URL = [], Header = Map.empty, http_Request.Body = []\<rparr>,
            Some (''parse '' @ url @ '': missing protocol scheme''))
      else (\<lparr>Method = method, URL = url, Header = Map.empty, http_Request.Body = body\<rparr>, None))"

definition stub_platform ::
  "string + http_Response \<Rightarrow> (string \<rightharpoonup> string) \<Rightarrow> (http_Request list) platform" where
  "stub_platform reply environ =
     \<lparr>yaml_Marshal = stub_Marshal, yaml_Unmarshal = stub_Unmarshal,
      http_NewRequest = stub_NewRequest,
      http_DefaultClient = (\<lambda>req w. (reply, w @ [req])),
      os_Environ = environ\<rparr>"

definition stub_request :: "string \<Rightarrow> string \<Rightarrow> http_Request" where
  "stub_request url method =
     \<lparr>Method = ''POST'', URL = url,
      Header = [''Content-Type'' \<mapsto> [''text/yaml''], ''Accept'' \<mapsto> [''text/yaml'']],
      http_Request.Body = ''method: '' @ method\<rparr>"

definition http_reply :: "int \<Rightarrow> string \<Rightarrow> string \<Rightarrow> string + http_Response" where
  "http_reply code status body =
     Inr \<lparr>http_Response.Status = status, StatusCode = code, http_Response.Body = (body, None)\<rparr>"

definition stub_HTTPClient :: "string + http_Response \<Rightarrow> (http_Request list) HTTPClient" where
  "stub_HTTPClient reply =
     NewClient (stub_platform reply Map.empty) ''https://aidbox.app/rpc'' ''tok''"

section \<open>Auxiliary lemmas\<close>

lemma HasPrefix_iff: "HasPrefix s pre \<longleftrightarrow> (\<exists>q. s = pre @ q)"
  unfolding HasPrefix_def
  by (metis append_eq_conv_conj append_take_drop_id)

lemma Contains_iff: "Contains s substr \<longleftrightarrow> (\<exists>p q. s = p @ substr @ q)"
proof (induction s)
  case Nil
  then show ?case by auto
next
  case (Cons c s)
  show ?case
  proof
    assume "Contains (c # s) substr"
    then consider "HasPrefix (c # s) substr" | "Contains s substr" by auto
    then show "\<exists>p q. c # s = p @ substr @ q"
    proof cases
      case 1
      then obtain q where "c # s = substr @ q" using HasPrefix_iff by blast
      then have "c # s = [] @ substr @ q" by simp
      then show ?thesis by blast
    next
      case 2
      then obtain p q where "s = p @ substr @ q" using Cons.IH by blast
      then have "c # s = (c # p) @ substr @ q" by simp
      then show ?thesis by blast
    qed
  next
    assume "\<exists>p q. c # s = p @ substr @ q"
    then obtain p q where pq: "c # s = p @ substr @ q" by blast
    show "Contains (c # s) substr"
    proof (cases p)
      case Nil
      then have "HasPrefix (c # s) substr" using pq HasPrefix_iff by auto
      then show ?thesis by simp
    next
      case (Cons a p')
      then have "s = p' @ substr @ q" using pq by simp
      then have "Contains s substr" using Cons.IH by blast
      then show ?thesis by simp
    qed
  qed
qed

lemma Contains_embedded: "Contains (p @ substr @ q) substr"
  using Contains_iff by blast

lemma Contains_mono: "Contains s substr \<Longrightarrow> Contains (p @ s @ q) substr"
proof -
  assume "Contains s substr"
  then obtain a b where "s = a @ substr @ b" using Contains_iff by blast
  then have "p @ s @ q = (p @ a) @ substr @ (b @ q)" by simp
  then show ?thesis using Contains_iff by blast
qed

lemma not_HasError_mem:
  assumes "\<not> HasError diags"
  shows "ErrorDiagnostic s d \<notin> set diags"
proof
  assume "ErrorDiagnostic s d \<in> set diags"
  moreover have "is_error_diagnostic (ErrorDiagnostic s d)" by simp
  ultimately have "HasError diags" unfolding HasError_def list_ex_iff by blast
  with assms show False by simp
qed

lemma AddError_fresh: "\<not> HasError diags \<Longrightarrow> AddError diags s d = diags @ [ErrorDiagnostic s d]"
  unfolding AddError_def using not_HasError_mem by simp

lemma int64_id: "int64 n = n"
  unfolding int64_def by simp

lemma mapModel_explicit:
  "mapModelFromAPIResponse model apiResp =
     \<lparr>LicenseResourceModel.ID = ValueKnown (License.ID (LicenseResponse.License apiResp)),
      Name = ValueKnown (License.Name (LicenseResponse.License apiResp)),
      Product = ValueKnown (License.Product (LicenseResponse.License apiResp)),
      Type = ValueKnown (License.Type (LicenseResponse.License apiResp)),
      Expiration = ValueKnown (License.Expiration (LicenseResponse.License apiResp)),
      Status = ValueKnown (License.Status (LicenseResponse.License apiResp)),
      MaxInstances = ValueKnown (License.MaxInstances (LicenseResponse.License apiResp)),
      CreatorID = ValueKnown (Creator.ID (License.Creator (LicenseResponse.License apiResp))),
      ProjectID = ValueKnown (Project.ID (License.Project (LicenseResponse.License apiResp))),
      Offline = ValueKnown (License.Offline (LicenseResponse.License apiResp)),
      Created = ValueKnown (License.Created (LicenseResponse.License apiResp)),
      MetaLastUpdated = ValueKnown (LastUpdated (License.Meta (LicenseResponse.License apiResp))),
      MetaCreatedAt = ValueKnown (CreatedAt (License.Meta (LicenseResponse.License apiResp))),
      MetaVersionID = ValueKnown (VersionID (License.Meta (LicenseResponse.License apiResp))),
      Issuer = ValueKnown (License.Issuer (LicenseResponse.License apiResp)),
      InfoHosting = ValueKnown (Hosting (License.Info (LicenseResponse.License apiResp))),
      JWT = ValueKnown (LicenseResponse.JWT apiResp)\<rparr>"
  unfolding mapModelFromAPIResponse_def Let_def NewStringValue_def NewInt64Value_def
    NewBoolValue_def int64_id
  by (cases model) simp

lemma Create_success:
  assumes "\<not> HasError (Response.Diagnostics resp)"
    and "CreateRequest.Plan req = ObjectData plan"
    and "client r = Some c"
    and "Client.CreateLicense c (ValueString (LicenseResourceModel.Name plan))
           (ValueString (LicenseResourceModel.Product plan))
           (ValueString (LicenseResourceModel.Type plan)) w = ((apiResp, None), w')"
  shows "Create r req resp w =
           Some (resp\<lparr>Response.State := ObjectData (mapModelFromAPIResponse plan apiResp)\<rparr>, w')"
  using assms unfolding Create_def Set_def by simp

lemma Read_success:
  assumes "\<not> HasError (Response.Diagnostics resp)"
    and "ReadRequest.State req = ObjectData prior"
    and "\<not> absent (LicenseResourceModel.ID prior)"
    and "client r = Some c"
    and "Client.GetLicense c (ValueString (LicenseResourceModel.ID prior)) w = ((apiResp, None), w')"
  shows "Read r req resp w =
           Some (resp\<lparr>Response.State := ObjectData (mapModelFromAPIResponse prior apiResp)\<rparr>, w')"
  using assms unfolding Read_def Set_def absent_def by simp

lemma mapModel_response_fields: "mapModelFromAPIResponse model apiResp = response_fields apiResp"
  unfolding response_fields_def by (rule mapModel_explicit)

lemma makeAPICall_via_request:
  "makeAPICall P c method params w =
     (case request_of P c method params of
        Inl err \<Rightarrow> (([], Some err), w)
      | Inr rq \<Rightarrow>
          (case HTTPClient.Client c rq w of
             (Inl err, w') \<Rightarrow> (([], Some (CallError err)), w')
           | (Inr resp, w') \<Rightarrow>
               (case http_Response.Body resp of
                  (bodyBytes, Some err) \<Rightarrow> (([], Some (ReadError err)), w')
                | (bodyBytes, None) \<Rightarrow>
                    if StatusCode resp \<noteq> 200
                    then (([], Some (ResponseError (http_Response.Status resp) bodyBytes)), w')
                    else ((bodyBytes, None), w'))))"
  unfolding makeAPICall_def request_of_def Let_def
  by (simp split: prod.splits option.splits sum.splits)

lemma makeAPICall_build_error:
  "request_of P c method params = Inl err \<Longrightarrow> makeAPICall P c method params w = (([], Some err), w)"
  by (simp add: makeAPICall_via_request)

lemma makeAPICall_call_error:
  "request_of P c method params = Inr rq \<Longrightarrow> HTTPClient.Client c rq w = (Inl e, w')
   \<Longrightarrow> makeAPICall P c method params w = (([], Some (CallError e)), w')"
  by (simp add: makeAPICall_via_request)

lemma makeAPICall_response:
  "request_of P c method params = Inr rq \<Longrightarrow> HTTPClient.Client c rq w = (Inr resp, w')
   \<Longrightarrow> http_Response.Body resp = (body, None)
   \<Longrightarrow> makeAPICall P c method params w =
         (if StatusCode resp \<noteq> 200
          then (([], Some (ResponseError (http_Response.Status resp) body)), w')
          else ((body, None), w'))"
  by (simp add: makeAPICall_via_request)

lemma makeAPICall_error_kinds:
  assumes "makeAPICall P c method params w = ((b, Some err), w')"
  shows "(\<exists>e. err = MarshalError e \<or> err = RequestError e \<or> err = CallError e \<or> err = ReadError e)
         \<or> (\<exists>status body. err = ResponseError status body)"
  using assms unfolding makeAPICall_def Let_def
  by (auto split: prod.splits option.splits sum.splits if_splits)

lemma Contains_ResponseError_status: "Contains (Error (ResponseError status body)) status"
proof -
  have "Error (ResponseError status body) = ''API response error: '' @ status @ (''; Body: '' @ body)"
    by simp
  then show ?thesis using Contains_embedded by metis
qed

lemma Contains_ResponseError_body: "Contains (Error (ResponseError status body)) body"
proof -
  have "Error (ResponseError status body) = (''API response error: '' @ status @ ''; Body: '') @ body @ []"
    by simp
  then show ?thesis using Contains_embedded by metis
qed

lemma Contains_ResponseError_mono:
  assumes "Contains body phrase"
  shows "Contains (Error (ResponseError status body)) phrase"
proof -
  have "Error (ResponseError status body) = (''API response error: '' @ status @ ''; Body: '') @ body @ []"
    by simp
  then show ?thesis using Contains_mono [OF assms] by metis
qed

lemma Contains_wrapped:
  assumes "Contains e phrase"
  shows "Contains (Error (MarshalError e)) phrase" and "Contains (Error (RequestError e)) phrase"
    and "Contains (Error (CallError e)) phrase" and "Contains (Error (ReadError e)) phrase"
proof -
  have pre: "Contains (p @ e) phrase" for p
    using Contains_mono [OF assms, where q = "[]"] by simp
  show "Contains (Error (MarshalError e)) phrase" unfolding Error.simps by (rule pre)
  show "Contains (Error (RequestError e)) phrase" unfolding Error.simps by (rule pre)
  show "Contains (Error (CallError e)) phrase" unfolding Error.simps by (rule pre)
  show "Contains (Error (ReadError e)) phrase" unfolding Error.simps by (rule pre)
qed

lemma GetLicense_on_error:
  assumes "makeAPICall P c ''portal.portal/get-license'' (license_id_params c licenseID) w
             = ((bodyBytes, Some err), w')"
  shows "GetLicense P c licenseID w =
           ((zero_LicenseResponse,
             if Contains (Error err) ''You are not a member of the project'' then None else Some err), w')"
  using assms unfolding GetLicense_def license_id_params_def Let_def by simp

lemma GetLicense_on_body:
  assumes "makeAPICall P c ''portal.portal/get-license'' (license_id_params c licenseID) w
             = ((body, None), w')"
  shows "GetLicense P c licenseID w = (parseYAMLResponse P body, w')"
  using assms unfolding GetLicense_def license_id_params_def Let_def parseYAMLResponse_def
  by (simp split: prod.splits option.splits)

lemma CreateLicense_on_body:
  assumes "makeAPICall P c ''portal.portal/issue-license''
             (issue_license_params c name product licenseType) w = ((body, None), w')"
  shows "CreateLicense P c name product licenseType w = (parseYAMLResponse P body, w')"
  using assms unfolding CreateLicense_def issue_license_params_def Let_def parseYAMLResponse_def
  by (simp split: prod.splits option.splits)

lemma CreateLicense_on_error:
  assumes "makeAPICall P c ''portal.portal/issue-license''
             (issue_license_params c name product licenseType) w = ((bodyBytes, Some err), w')"
  shows "CreateLicense P c name product licenseType w = ((zero_LicenseResponse, Some err), w')"
  using assms unfolding CreateLicense_def issue_license_params_def Let_def by simp

lemma DeleteLicense_is_makeAPICall:
  "DeleteLicense P c licenseID w =
     (snd (fst (makeAPICall P c ''portal.portal/remove-license'' (license_id_params c licenseID) w)),
      snd (makeAPICall P c ''portal.portal/remove-license'' (license_id_params c licenseID) w))"
  unfolding DeleteLicense_def license_id_params_def by (simp split: prod.splits)

lemma request_of_Unmarshal:
  "request_of (P\<lparr>yaml_Unmarshal := u\<rparr>) c method params = request_of P c method params"
  unfolding request_of_def by simp

lemma makeAPICall_Unmarshal:
  "makeAPICall (P\<lparr>yaml_Unmarshal := u\<rparr>) c method params w = makeAPICall P c method params w"
  unfolding makeAPICall_via_request request_of_Unmarshal by simp

lemmas stub_defs = request_of_def stub_platform_def stub_HTTPClient_def http_reply_def
  NewClient_def stub_Marshal_def stub_NewRequest_def stub_request_def Header_Set_def
  HasPrefix_def license_id_params_def

lemma makeAPICall_read_error:
  "request_of P c method params = Inr rq \<Longrightarrow> HTTPClient.Client c rq w = (Inr resp, w')
   \<Longrightarrow> http_Response.Body resp = (b, Some e)
   \<Longrightarrow> makeAPICall P c method params w = (([], Some (ReadError e)), w')"
  by (simp add: makeAPICall_via_request)

lemma Contains_ResponseError_status_mono:
  assumes "Contains status phrase"
  shows "Contains (Error (ResponseError status body)) phrase"
proof -
  have "Error (ResponseError status body) = ''API response error: '' @ status @ (''; Body: '' @ body)"
    by simp
  then show ?thesis using Contains_mono [OF assms] by metis
qed

lemma parse_error_iff:
  "(\<exists>e. snd (parseYAMLResponse P body) = Some (ParseError e)) \<longleftrightarrow> snd (yaml_Unmarshal P body) \<noteq> None"
  unfolding parseYAMLResponse_def by (auto split: prod.splits option.splits)

lemma parseYAMLResponse_cases:
  "parseYAMLResponse P body =
     (case yaml_Unmarshal P body of
        (apiResp, Some err) \<Rightarrow> (zero_LicenseResponse, Some (ParseError err))
      | (apiResp, None) \<Rightarrow>
          (\<lparr>LicenseResponse.License = APIResponse_Result.License (Result apiResp),
            LicenseResponse.JWT = APIResponse_Result.JWT (Result apiResp)\<rparr>, None))"
  unfolding parseYAMLResponse_def by (simp split: prod.splits option.splits)

section \<open>The claims\<close>

text \<open>
  Claim C1 does not hold of the code. When the remote answers "You are not a member of
  the project", \<open>GetLicense\<close> signals not-found (the empty result, no error), and
  \<open>Read\<close> stores a state for it, every field set to the zero value of the empty
  result (the id becomes the known empty string); the resource is not removed.
\<close>

theorem Read_not_found_keeps_resource:
  "Read \<lparr>client = Some (HTTPClient_as_Client
                  (stub_platform (http_reply 403 ''403 Forbidden''
                     ''message: You are not a member of the project'') Map.empty)
                  (stub_HTTPClient (http_reply 403 ''403 Forbidden''
                     ''message: You are not a member of the project''))),
          endpoint = ''https://aidbox.app/rpc'', token = ''tok''\<rparr>
        \<lparr>ReadRequest.State = ObjectData example_state\<rparr>
        \<lparr>Response.State = ObjectData example_state, Response.Diagnostics = []\<rparr> []
     = Some (\<lparr>Response.State = ObjectData (response_fields zero_LicenseResponse),
              Response.Diagnostics = []\<rparr>,
             [stub_request ''https://aidbox.app/rpc'' ''portal.portal/get-license''])
   \<and> ObjectData (response_fields zero_LicenseResponse) \<noteq> NullData
   \<and> LicenseResourceModel.ID (response_fields zero_LicenseResponse) = ValueKnown []
   \<and> LicenseResourceModel.Name (response_fields zero_LicenseResponse) = ValueKnown []"
proof -
  let ?P = "stub_platform (http_reply 403 ''403 Forbidden''
              ''message: You are not a member of the project'') Map.empty"
  let ?c = "stub_HTTPClient (http_reply 403 ''403 Forbidden''
              ''message: You are not a member of the project'')"
  let ?rq = "stub_request ''https://aidbox.app/rpc'' ''portal.portal/get-license''"
  have mk: "makeAPICall ?P ?c ''portal.portal/get-license'' (license_id_params ?c ''lic-0'') []
      = (([], Some (ResponseError ''403 Forbidden''
                      ''message: You are not a member of the project'')), [?rq])"
    by (simp add: makeAPICall_via_request stub_defs)
  have "Contains (Error (ResponseError ''403 Forbidden''
                      ''message: You are not a member of the project''))
          ''You are not a member of the project''"
    by (simp add: HasPrefix_def)
  then have get: "GetLicense ?P ?c ''lic-0'' [] = ((zero_LicenseResponse, None), [?rq])"
    using GetLicense_on_error [OF mk] by simp
  have "Read \<lparr>client = Some (HTTPClient_as_Client ?P ?c),
          endpoint = ''https://aidbox.app/rpc'', token = ''tok''\<rparr>
        \<lparr>ReadRequest.State = ObjectData example_state\<rparr>
        \<lparr>Response.State = ObjectData example_state, Response.Diagnostics = []\<rparr> []
     = Some (\<lparr>Response.State = ObjectData (response_fields zero_LicenseResponse),
              Response.Diagnostics = []\<rparr>, [?rq])"
    unfolding Read_def
    by (simp add: HTTPClient_as_Client_def get example_state_def HasError_def IsNull_def
        IsUnknown_def ValueString_def Set_def mapModel_response_fields)
  moreover have "LicenseResourceModel.ID (response_fields zero_LicenseResponse) = ValueKnown []"
    and "LicenseResourceModel.Name (response_fields zero_LicenseResponse) = ValueKnown []"
    by (simp_all add: response_fields_def zero_LicenseResponse_def zero_License_def)
  ultimately show ?thesis by simp
qed

text \<open>
  Claim C2, as amended. For every HTTP response the shared request path receives and
  reads in full, \<open>makeAPICall\<close> returns a protocol error exactly when the status code
  is not 200 (and no error exactly when it is 200); that error holds the status line and
  the body read, and its text contains both verbatim.
\<close>

theorem non_200_is_protocol_error:
  assumes "request_of P c rpcMethod rpcParams = Inr rq"
    and "HTTPClient.Client c rq w = (Inr resp, w')"
    and "http_Response.Body resp = (body, None)"
  shows "((\<exists>status text. snd (fst (makeAPICall P c rpcMethod rpcParams w)) = Some (ResponseError status text))
            \<longleftrightarrow> StatusCode resp \<noteq> 200)
         \<and> (snd (fst (makeAPICall P c rpcMethod rpcParams w)) = None \<longleftrightarrow> StatusCode resp = 200)
         \<and> (StatusCode resp \<noteq> 200 \<longrightarrow>
               makeAPICall P c rpcMethod rpcParams w
                 = (([], Some (ResponseError (http_Response.Status resp) body)), w')
               \<and> Contains (Error (ResponseError (http_Response.Status resp) body))
                     (http_Response.Status resp)
               \<and> Contains (Error (ResponseError (http_Response.Status resp) body)) body)"
  using makeAPICall_response [OF assms]
    Contains_ResponseError_status [of "http_Response.Status resp" body]
    Contains_ResponseError_body [of "http_Response.Status resp" body]
  by (cases "StatusCode resp = 200") simp_all

theorem non_200_is_protocol_error_witness:
  "makeAPICall
     (stub_platform (http_reply 404 ''404 Not Found'' ''message: no such license'') Map.empty)
     (stub_HTTPClient (http_reply 404 ''404 Not Found'' ''message: no such license''))
     ''portal.portal/get-license'' [''id'' \<mapsto> YString ''lic-1''] []
   = (([], Some (ResponseError ''404 Not Found'' ''message: no such license'')),
      [stub_request ''https://aidbox.app/rpc'' ''portal.portal/get-license''])
   \<and> Contains (Error (ResponseError ''404 Not Found'' ''message: no such license'')) ''404 Not Found''
   \<and> Contains (Error (ResponseError ''404 Not Found'' ''message: no such license''))
         ''message: no such license''"
  using non_200_is_protocol_error
    [where P = "stub_platform (http_reply 404 ''404 Not Found'' ''message: no such license'') Map.empty"
       and c = "stub_HTTPClient (http_reply 404 ''404 Not Found'' ''message: no such license'')"
       and rpcMethod = "''portal.portal/get-license''"
       and rpcParams = "[''id'' \<mapsto> YString ''lic-1'']"
       and rq = "stub_request ''https://aidbox.app/rpc'' ''portal.portal/get-license''"
       and w = "[]"
       and resp = "\<lparr>http_Response.Status = ''404 Not Found'', StatusCode = 404,
                     http_Response.Body = (''message: no such license'', None)\<rparr>"
       and w' = "[stub_request ''https://aidbox.app/rpc'' ''portal.portal/get-license'']"
       and body = "''message: no such license''"]
  by (simp add: request_of_def stub_platform_def stub_HTTPClient_def http_reply_def NewClient_def
      stub_Marshal_def stub_NewRequest_def stub_request_def Header_Set_def HasPrefix_def)

text \<open>
  Claim C2 as stated fails: the status 201 is a 2xx status, and the call returns a
  protocol error for it.
\<close>

theorem status_201_is_an_error:
  "is_2xx 201
   \<and> makeAPICall (stub_platform (http_reply 201 ''201 Created'' ''result: {}'') Map.empty)
       (stub_HTTPClient (http_reply 201 ''201 Created'' ''result: {}''))
       ''portal.portal/issue-license'' [''name'' \<mapsto> YString ''license-one''] []
     = (([], Some (ResponseError ''201 Created'' ''result: {}'')),
        [stub_request ''https://aidbox.app/rpc'' ''portal.portal/issue-license''])"
  by (simp add: is_2xx_def makeAPICall_via_request stub_defs)

text \<open>
  Claim C3, as amended. \<open>GetLicense\<close> decides on the text of the error that the request
  path returns. For a response with a status other than 200, the error text is made of
  the remote's status line and body: when either holds the phrase "You are not a member
  of the project", \<open>GetLicense\<close> returns the empty result and a nil error, and when
  the text does not hold it, the protocol error is returned unchanged. The same holds of
  every error of the request path, remote or local: it is returned unchanged exactly when
  its text does not hold the phrase. A parse error of a 200 response is always returned.
\<close>

theorem GetLicense_decides_on_error_text:
  "(request_of P c ''portal.portal/get-license'' (license_id_params c licenseID) = Inr rq
      \<and> HTTPClient.Client c rq w = (Inr resp, w')
      \<and> http_Response.Body resp = (body, None)
      \<and> StatusCode resp \<noteq> 200
    \<longrightarrow> GetLicense P c licenseID w =
          ((zero_LicenseResponse,
            if Contains (Error (ResponseError (http_Response.Status resp) body))
                 ''You are not a member of the project''
            then None else Some (ResponseError (http_Response.Status resp) body)), w')
        \<and> (Contains body ''You are not a member of the project''
             \<or> Contains (http_Response.Status resp) ''You are not a member of the project''
           \<longrightarrow> GetLicense P c licenseID w = ((zero_LicenseResponse, None), w')))
   \<and> (makeAPICall P c ''portal.portal/get-license'' (license_id_params c licenseID) w
        = ((bodyBytes, Some err), w')
    \<longrightarrow> GetLicense P c licenseID w =
          ((zero_LicenseResponse,
            if Contains (Error err) ''You are not a member of the project'' then None
            else Some err), w'))
   \<and> (request_of P c ''portal.portal/get-license'' (license_id_params c licenseID) = Inr rq
      \<and> HTTPClient.Client c rq w = (Inr resp, w')
      \<and> http_Response.Body resp = (body, None)
      \<and> StatusCode resp = 200
      \<and> yaml_Unmarshal P body = (apiResp, Some parseErr)
    \<longrightarrow> GetLicense P c licenseID w = ((zero_LicenseResponse, Some (ParseError parseErr)), w'))"
proof (intro conjI impI)
  assume a: "request_of P c ''portal.portal/get-license'' (license_id_params c licenseID) = Inr rq
      \<and> HTTPClient.Client c rq w = (Inr resp, w')
      \<and> http_Response.Body resp = (body, None)
      \<and> StatusCode resp \<noteq> 200"
  then have mk: "makeAPICall P c ''portal.portal/get-license'' (license_id_params c licenseID) w
      = (([], Some (ResponseError (http_Response.Status resp) body)), w')"
    using makeAPICall_response [of P c "''portal.portal/get-license''"
        "license_id_params c licenseID" rq w resp w' body]
    by simp
  show g: "GetLicense P c licenseID w =
          ((zero_LicenseResponse,
            if Contains (Error (ResponseError (http_Response.Status resp) body))
                 ''You are not a member of the project''
            then None else Some (ResponseError (http_Response.Status resp) body)), w')"
    using mk by (rule GetLicense_on_error)
  assume "Contains body ''You are not a member of the project''
             \<or> Contains (http_Response.Status resp) ''You are not a member of the project''"
  then have "Contains (Error (ResponseError (http_Response.Status resp) body))
               ''You are not a member of the project''"
    using Contains_ResponseError_mono Contains_ResponseError_status_mono by blast
  then show "GetLicense P c licenseID w = ((zero_LicenseResponse, None), w')"
    unfolding g by (simp only: if_True)
next
  assume "makeAPICall P c ''portal.portal/get-license'' (license_id_params c licenseID) w
        = ((bodyBytes, Some err), w')"
  then show "GetLicense P c licenseID w =
          ((zero_LicenseResponse,
            if Contains (Error err) ''You are not a member of the project'' then None
            else Some err), w')"
    by (rule GetLicense_on_error)
next
  assume a: "request_of P c ''portal.portal/get-license'' (license_id_params c licenseID) = Inr rq
      \<and> HTTPClient.Client c rq w = (Inr resp, w')
      \<and> http_Response.Body resp = (body, None)
      \<and> StatusCode resp = 200
      \<and> yaml_Unmarshal P body = (apiResp, Some parseErr)"
  then have "makeAPICall P c ''portal.portal/get-license'' (license_id_params c licenseID) w
      = ((body, None), w')"
    using makeAPICall_response [of P c "''portal.portal/get-license''"
        "license_id_params c licenseID" rq w resp w' body]
    by simp
  then have "GetLicense P c licenseID w = (parseYAMLResponse P body, w')"
    by (rule GetLicense_on_body)
  then show "GetLicense P c licenseID w = ((zero_LicenseResponse, Some (ParseError parseErr)), w')"
    using a unfolding parseYAMLResponse_def by simp
qed

theorem GetLicense_decides_on_error_text_witness:
  "GetLicense
     (stub_platform (http_reply 403 ''403 Forbidden''
        ''message: You are not a member of the project'') Map.empty)
     (stub_HTTPClient (http_reply 403 ''403 Forbidden''
        ''message: You are not a member of the project'')) ''lic-1'' []
   = ((zero_LicenseResponse, None),
      [stub_request ''https://aidbox.app/rpc'' ''portal.portal/get-license''])
   \<and> GetLicense
     (stub_platform (http_reply 500 ''500 Internal Server Error'' ''message: boom'') Map.empty)
     (stub_HTTPClient (http_reply 500 ''500 Internal Server Error'' ''message: boom'')) ''lic-1'' []
   = ((zero_LicenseResponse,
       Some (ResponseError ''500 Internal Server Error'' ''message: boom'')),
      [stub_request ''https://aidbox.app/rpc'' ''portal.portal/get-license''])
   \<and> GetLicense (stub_platform (Inl ''dial tcp: connection refused'') Map.empty)
     (stub_HTTPClient (Inl ''dial tcp: connection refused'')) ''lic-1'' []
   = ((zero_LicenseResponse, Some (CallError ''dial tcp: connection refused'')),
      [stub_request ''https://aidbox.app/rpc'' ''portal.portal/get-license''])
   \<and> GetLicense (stub_platform (http_reply 200 ''200 OK'' ''['') Map.empty)
     (stub_HTTPClient (http_reply 200 ''200 OK'' ''['')) ''lic-1'' []
   = ((zero_LicenseResponse,
       Some (ParseError ''yaml: line 1: did not find expected node content'')),
      [stub_request ''https://aidbox.app/rpc'' ''portal.portal/get-license''])"
proof -
  let ?rq = "stub_request ''https://aidbox.app/rpc'' ''portal.portal/get-license''"
  have 1: "GetLicense
     (stub_platform (http_reply 403 ''403 Forbidden''
        ''message: You are not a member of the project'') Map.empty)
     (stub_HTTPClient (http_reply 403 ''403 Forbidden''
        ''message: You are not a member of the project'')) ''lic-1'' []
     = ((zero_LicenseResponse, None), [?rq])"
    using GetLicense_decides_on_error_text
      [where P = "stub_platform (http_reply 403 ''403 Forbidden''
                    ''message: You are not a member of the project'') Map.empty"
         and c = "stub_HTTPClient (http_reply 403 ''403 Forbidden''
                    ''message: You are not a member of the project'')"
         and licenseID = "''lic-1''" and w = "[]" and rq = ?rq and w' = "[?rq]"
         and resp = "\<lparr>http_Response.Status = ''403 Forbidden'', StatusCode = 403,
                       http_Response.Body =
                         (''message: You are not a member of the project'', None)\<rparr>"
         and body = "''message: You are not a member of the project''",
       THEN conjunct1]
    by (simp add: stub_defs)
  have 2: "GetLicense
     (stub_platform (http_reply 500 ''500 Internal Server Error'' ''message: boom'') Map.empty)
     (stub_HTTPClient (http_reply 500 ''500 Internal Server Error'' ''message: boom'')) ''lic-1'' []
     = ((zero_LicenseResponse,
         Some (ResponseError ''500 Internal Server Error'' ''message: boom'')), [?rq])"
    using GetLicense_decides_on_error_text
      [where P = "stub_platform (http_reply 500 ''500 Internal Server Error'' ''message: boom'')
                    Map.empty"
         and c = "stub_HTTPClient (http_reply 500 ''500 Internal Server Error'' ''message: boom'')"
         and licenseID = "''lic-1''" and w = "[]" and rq = ?rq and w' = "[?rq]"
         and resp = "\<lparr>http_Response.Status = ''500 Internal Server Error'', StatusCode = 500,
                       http_Response.Body = (''message: boom'', None)\<rparr>"
         and body = "''message: boom''",
       THEN conjunct1]
    by (simp add: stub_defs)
  have 3: "GetLicense (stub_platform (Inl ''dial tcp: connection refused'') Map.empty)
     (stub_HTTPClient (Inl ''dial tcp: connection refused'')) ''lic-1'' []
     = ((zero_LicenseResponse, Some (CallError ''dial tcp: connection refused'')), [?rq])"
    using GetLicense_decides_on_error_text
      [where P = "stub_platform (Inl ''dial tcp: connection refused'') Map.empty"
         and c = "stub_HTTPClient (Inl ''dial tcp: connection refused'')"
         and licenseID = "''lic-1''" and w = "[]" and w' = "[?rq]" and bodyBytes = "[]"
         and err = "CallError ''dial tcp: connection refused''",
       THEN conjunct2, THEN conjunct1]
    by (simp add: makeAPICall_via_request stub_defs)
  have 4: "GetLicense (stub_platform (http_reply 200 ''200 OK'' ''['') Map.empty)
     (stub_HTTPClient (http_reply 200 ''200 OK'' ''['')) ''lic-1'' []
     = ((zero_LicenseResponse,
         Some (ParseError ''yaml: line 1: did not find expected node content'')), [?rq])"
    using GetLicense_decides_on_error_text
      [where P = "stub_platform (http_reply 200 ''200 OK'' ''['') Map.empty"
         and c = "stub_HTTPClient (http_reply 200 ''200 OK'' ''['')"
         and licenseID = "''lic-1''" and w = "[]" and rq = ?rq and w' = "[?rq]"
         and resp = "\<lparr>http_Response.Status = ''200 OK'', StatusCode = 200,
                       http_Response.Body = (''['', None)\<rparr>"
         and body = "''[''" and apiResp = zero_APIResponse
         and parseErr = "''yaml: line 1: did not find expected node content''",
       THEN conjunct2, THEN conjunct2]
    by (simp add: stub_defs stub_Unmarshal_def)
  from 1 2 3 4 show ?thesis by (simp only: simp_thms)
qed

text \<open>
  Claim C3 as stated fails: "every other error propagates" does not hold of an error
  that is not the remote's. With an endpoint that holds the phrase and is not a URL,
  the request path fails before anything is sent (the world stays empty), and
  \<open>GetLicense\<close> returns a nil error instead of that request-construction error.
\<close>

theorem local_error_with_phrase_is_swallowed:
  "makeAPICall (stub_platform (http_reply 200 ''200 OK'' ''{}'') Map.empty)
     (NewClient (stub_platform (http_reply 200 ''200 OK'' ''{}'') Map.empty)
        ''://You are not a member of the project'' ''tok'')
     ''portal.portal/get-license''
     (license_id_params
        (NewClient (stub_platform (http_reply 200 ''200 OK'' ''{}'') Map.empty)
           ''://You are not a member of the project'' ''tok'') ''lic-1'') []
   = (([], Some (RequestError
                  ''parse ://You are not a member of the project: missing protocol scheme'')), [])
   \<and> GetLicense (stub_platform (http_reply 200 ''200 OK'' ''{}'') Map.empty)
     (NewClient (stub_platform (http_reply 200 ''200 OK'' ''{}'') Map.empty)
        ''://You are not a member of the project'' ''tok'') ''lic-1'' []
   = ((zero_LicenseResponse, None), [])"
proof -
  let ?P = "stub_platform (http_reply 200 ''200 OK'' ''{}'') Map.empty"
  let ?c = "NewClient ?P ''://You are not a member of the project'' ''tok''"
  have mk: "makeAPICall ?P ?c ''portal.portal/get-license'' (license_id_params ?c ''lic-1'') []
   = (([], Some (RequestError
                  ''parse ://You are not a member of the project: missing protocol scheme'')), [])"
    by (simp add: makeAPICall_via_request stub_defs)
  have "Contains (Error (RequestError
                  ''parse ://You are not a member of the project: missing protocol scheme''))
          ''You are not a member of the project''"
    by (simp add: HasPrefix_def)
  then have "GetLicense ?P ?c ''lic-1'' [] = ((zero_LicenseResponse, None), [])"
    using GetLicense_on_error [OF mk] by simp
  with mk show ?thesis by (simp only: simp_thms)
qed

text \<open>
  Claim C4, as amended. For every response with status code 200 whose body was read in
  full, \<open>CreateLicense\<close> and \<open>GetLicense\<close> fail with a parse error exactly when the
  body does not decode, that is when \<open>yaml.Unmarshal\<close> into the envelope struct reports
  an error, and the parse error wraps that error. When the decoder reports none they
  return no error and the license and JWT it decoded: the client makes no check of the
  shape of its own.
\<close>

theorem decode_error_on_200:
  assumes "HTTPClient.Client c rq w = (Inr resp, w')"
    and "http_Response.Body resp = (body, None)"
    and "StatusCode resp = 200"
  shows "(request_of P c ''portal.portal/issue-license''
            (issue_license_params c name product licenseType) = Inr rq
          \<longrightarrow> CreateLicense P c name product licenseType w =
              ((case yaml_Unmarshal P body of
                  (apiResp, Some err) \<Rightarrow> (zero_LicenseResponse, Some (ParseError err))
                | (apiResp, None) \<Rightarrow>
                    (\<lparr>LicenseResponse.License = APIResponse_Result.License (Result apiResp),
                      LicenseResponse.JWT = APIResponse_Result.JWT (Result apiResp)\<rparr>, None)), w')
            \<and> ((\<exists>e. snd (fst (CreateLicense P c name product licenseType w)) = Some (ParseError e))
                 \<longleftrightarrow> snd (yaml_Unmarshal P body) \<noteq> None)
            \<and> (snd (fst (CreateLicense P c name product licenseType w)) = None
                 \<longleftrightarrow> snd (yaml_Unmarshal P body) = None))
         \<and> (request_of P c ''portal.portal/get-license'' (license_id_params c licenseID) = Inr rq
          \<longrightarrow> GetLicense P c licenseID w =
              ((case yaml_Unmarshal P body of
                  (apiResp, Some err) \<Rightarrow> (zero_LicenseResponse, Some (ParseError err))
                | (apiResp, None) \<Rightarrow>
                    (\<lparr>LicenseResponse.License = APIResponse_Result.License (Result apiResp),
                      LicenseResponse.JWT = APIResponse_Result.JWT (Result apiResp)\<rparr>, None)), w')
            \<and> ((\<exists>e. snd (fst (GetLicense P c licenseID w)) = Some (ParseError e))
                 \<longleftrightarrow> snd (yaml_Unmarshal P body) \<noteq> None)
            \<and> (snd (fst (GetLicense P c licenseID w)) = None
                 \<longleftrightarrow> snd (yaml_Unmarshal P body) = None))"
proof -
  have none_iff: "snd (parseYAMLResponse P body) = None \<longleftrightarrow> snd (yaml_Unmarshal P body) = None"
    unfolding parseYAMLResponse_def by (auto split: prod.splits option.splits)
  have create: "CreateLicense P c name product licenseType w = (parseYAMLResponse P body, w')"
    if rq: "request_of P c ''portal.portal/issue-license''
              (issue_license_params c name product licenseType) = Inr rq"
  proof -
    have "makeAPICall P c ''portal.portal/issue-license''
            (issue_license_params c name product licenseType) w = ((body, None), w')"
      using makeAPICall_response [OF rq assms(1) assms(2)] assms(3) by simp
    then show ?thesis by (rule CreateLicense_on_body)
  qed
  have get: "GetLicense P c licenseID w = (parseYAMLResponse P body, w')"
    if rq: "request_of P c ''portal.portal/get-license'' (license_id_params c licenseID) = Inr rq"
  proof -
    have "makeAPICall P c ''portal.portal/get-license'' (license_id_params c licenseID) w
            = ((body, None), w')"
      using makeAPICall_response [OF rq assms(1) assms(2)] assms(3) by simp
    then show ?thesis by (rule GetLicense_on_body)
  qed
  show ?thesis
  proof (intro conjI impI)
    assume rq: "request_of P c ''portal.portal/issue-license''
              (issue_license_params c name product licenseType) = Inr rq"
    show "CreateLicense P c name product licenseType w =
              ((case yaml_Unmarshal P body of
                  (apiResp, Some err) \<Rightarrow> (zero_LicenseResponse, Some (ParseError err))
                | (apiResp, None) \<Rightarrow>
                    (\<lparr>LicenseResponse.License = APIResponse_Result.License (Result apiResp),
                      LicenseResponse.JWT = APIResponse_Result.JWT (Result apiResp)\<rparr>, None)), w')"
      unfolding create [OF rq] parseYAMLResponse_cases by simp
    show "(\<exists>e. snd (fst (CreateLicense P c name product licenseType w)) = Some (ParseError e))
                 \<longleftrightarrow> snd (yaml_Unmarshal P body) \<noteq> None"
      unfolding create [OF rq] using parse_error_iff [of P body] by simp
    show "snd (fst (CreateLicense P c name product licenseType w)) = None
                 \<longleftrightarrow> snd (yaml_Unmarshal P body) = None"
      unfolding create [OF rq] using none_iff by simp
  next
    assume rq: "request_of P c ''portal.portal/get-license'' (license_id_params c licenseID) = Inr rq"
    show "GetLicense P c licenseID w =
              ((case yaml_Unmarshal P body of
                  (apiResp, Some err) \<Rightarrow> (zero_LicenseResponse, Some (ParseError err))
                | (apiResp, None) \<Rightarrow>
                    (\<lparr>LicenseResponse.License = APIResponse_Result.License (Result apiResp),
                      LicenseResponse.JWT = APIResponse_Result.JWT (Result apiResp)\<rparr>, None)), w')"
      unfolding get [OF rq] parseYAMLResponse_cases by simp
    show "(\<exists>e. snd (fst (GetLicense P c licenseID w)) = Some (ParseError e))
                 \<longleftrightarrow> snd (yaml_Unmarshal P body) \<noteq> None"
      unfolding get [OF rq] using parse_error_iff [of P body] by simp
    show "snd (fst (GetLicense P c licenseID w)) = None
                 \<longleftrightarrow> snd (yaml_Unmarshal P body) = None"
      unfolding get [OF rq] using none_iff by simp
  qed
qed

theorem decode_error_on_200_witness:
  "CreateLicense (stub_platform (http_reply 200 ''200 OK'' ''['') Map.empty)
     (stub_HTTPClient (http_reply 200 ''200 OK'' ''[''))
     ''license-one'' ''aidbox'' ''development'' []
   = ((zero_LicenseResponse,
       Some (ParseError ''yaml: line 1: did not find expected node content'')),
      [stub_request ''https://aidbox.app/rpc'' ''portal.portal/issue-license''])
   \<and> GetLicense
       (stub_platform (http_reply 200 ''200 OK'' ''result: {license: {id: lic-1}, jwt: jwt-1}'')
          Map.empty)
       (stub_HTTPClient (http_reply 200 ''200 OK'' ''result: {license: {id: lic-1}, jwt: jwt-1}''))
       ''lic-1'' []
   = ((\<lparr>LicenseResponse.License = zero_License\<lparr>License.ID := ''lic-1''\<rparr>,
        LicenseResponse.JWT = ''jwt-1''\<rparr>, None),
      [stub_request ''https://aidbox.app/rpc'' ''portal.portal/get-license''])"
proof -
  have 1: "CreateLicense (stub_platform (http_reply 200 ''200 OK'' ''['') Map.empty)
     (stub_HTTPClient (http_reply 200 ''200 OK'' ''[''))
     ''license-one'' ''aidbox'' ''development'' []
   = ((zero_LicenseResponse,
       Some (ParseError ''yaml: line 1: did not find expected node content'')),
      [stub_request ''https://aidbox.app/rpc'' ''portal.portal/issue-license''])"
    using decode_error_on_200
      [where P = "stub_platform (http_reply 200 ''200 OK'' ''['') Map.empty"
         and c = "stub_HTTPClient (http_reply 200 ''200 OK'' ''['')"
         and rq = "stub_request ''https://aidbox.app/rpc'' ''portal.portal/issue-license''"
         and w = "[]"
         and resp = "\<lparr>http_Response.Status = ''200 OK'', StatusCode = 200,
                       http_Response.Body = (''['', None)\<rparr>"
         and w' = "[stub_request ''https://aidbox.app/rpc'' ''portal.portal/issue-license'']"
         and body = "''[''"
         and name = "''license-one''" and product = "''aidbox''"
         and licenseType = "''development''",
       THEN conjunct1]
    by (simp add: stub_defs issue_license_params_def stub_Unmarshal_def)
  have 2: "GetLicense
       (stub_platform (http_reply 200 ''200 OK'' ''result: {license: {id: lic-1}, jwt: jwt-1}'')
          Map.empty)
       (stub_HTTPClient (http_reply 200 ''200 OK'' ''result: {license: {id: lic-1}, jwt: jwt-1}''))
       ''lic-1'' []
   = ((\<lparr>LicenseResponse.License = zero_License\<lparr>License.ID := ''lic-1''\<rparr>,
        LicenseResponse.JWT = ''jwt-1''\<rparr>, None),
      [stub_request ''https://aidbox.app/rpc'' ''portal.portal/get-license''])"
    using decode_error_on_200
      [where P = "stub_platform (http_reply 200 ''200 OK''
                     ''result: {license: {id: lic-1}, jwt: jwt-1}'') Map.empty"
         and c = "stub_HTTPClient (http_reply 200 ''200 OK''
                     ''result: {license: {id: lic-1}, jwt: jwt-1}'')"
         and rq = "stub_request ''https://aidbox.app/rpc'' ''portal.portal/get-license''"
         and w = "[]"
         and resp = "\<lparr>http_Response.Status = ''200 OK'', StatusCode = 200,
                       http_Response.Body =
                         (''result: {license: {id: lic-1}, jwt: jwt-1}'', None)\<rparr>"
         and w' = "[stub_request ''https://aidbox.app/rpc'' ''portal.portal/get-license'']"
         and body = "''result: {license: {id: lic-1}, jwt: jwt-1}''"
         and licenseID = "''lic-1''",
       THEN conjunct2]
    by (simp add: stub_defs stub_Unmarshal_def example_APIResponse_def)
  from 1 2 show ?thesis by (simp only: simp_thms)
qed

text \<open>
  Claim C4 as stated fails twice. For the 2xx status 201 and a body that does not
  decode, \<open>CreateLicense\<close> and \<open>GetLicense\<close> fail with the protocol error, not a
  parse error. For the status 200 and the body \<open>{}\<close>, which has no \<open>result\<close>, no
  \<open>license\<close> and no \<open>jwt\<close>, the decoder reports no error and both methods return
  the empty result with a nil error: a body that is not of the expected shape, and no
  decode failure.
\<close>

theorem parse_error_neither_by_2xx_nor_by_shape:
  "is_2xx 201
   \<and> snd (yaml_Unmarshal (stub_platform (http_reply 201 ''201 Created'' ''['') Map.empty) ''['')
       = Some ''yaml: line 1: did not find expected node content''
   \<and> CreateLicense (stub_platform (http_reply 201 ''201 Created'' ''['') Map.empty)
       (stub_HTTPClient (http_reply 201 ''201 Created'' ''[''))
       ''license-one'' ''aidbox'' ''development'' []
     = ((zero_LicenseResponse, Some (ResponseError ''201 Created'' ''['')),
        [stub_request ''https://aidbox.app/rpc'' ''portal.portal/issue-license''])
   \<and> GetLicense (stub_platform (http_reply 201 ''201 Created'' ''['') Map.empty)
       (stub_HTTPClient (http_reply 201 ''201 Created'' ''['')) ''lic-1'' []
     = ((zero_LicenseResponse, Some (ResponseError ''201 Created'' ''['')),
        [stub_request ''https://aidbox.app/rpc'' ''portal.portal/get-license''])
   \<and> CreateLicense (stub_platform (http_reply 200 ''200 OK'' ''{}'') Map.empty)
       (stub_HTTPClient (http_reply 200 ''200 OK'' ''{}''))
       ''license-one'' ''aidbox'' ''development'' []
     = ((zero_LicenseResponse, None),
        [stub_request ''https://aidbox.app/rpc'' ''portal.portal/issue-license''])
   \<and> GetLicense (stub_platform (http_reply 200 ''200 OK'' ''{}'') Map.empty)
       (stub_HTTPClient (http_reply 200 ''200 OK'' ''{}'')) ''lic-1'' []
     = ((zero_LicenseResponse, None),
        [stub_request ''https://aidbox.app/rpc'' ''portal.portal/get-license''])"
proof -
  let ?P = "stub_platform (http_reply 201 ''201 Created'' ''['') Map.empty"
  let ?c = "stub_HTTPClient (http_reply 201 ''201 Created'' ''['')"
  let ?Q = "stub_platform (http_reply 200 ''200 OK'' ''{}'') Map.empty"
  let ?d = "stub_HTTPClient (http_reply 200 ''200 OK'' ''{}'')"
  have mk: "makeAPICall ?P ?c rpcMethod rpcParams []
          = (([], Some (ResponseError ''201 Created'' ''['')),
             [stub_request ''https://aidbox.app/rpc'' rpcMethod])" for rpcMethod rpcParams
    by (simp add: makeAPICall_via_request stub_defs)
  have ok: "makeAPICall ?Q ?d rpcMethod rpcParams []
          = ((''{}'', None), [stub_request ''https://aidbox.app/rpc'' rpcMethod])"
    for rpcMethod rpcParams
    by (simp add: makeAPICall_via_request stub_defs)
  have empty: "parseYAMLResponse ?Q ''{}'' = (zero_LicenseResponse, None)"
    by (simp add: parseYAMLResponse_def stub_platform_def stub_Unmarshal_def zero_APIResponse_def
        zero_LicenseResponse_def)
  have "\<not> Contains (Error (ResponseError ''201 Created'' ''[''))
            ''You are not a member of the project''"
    by (simp add: HasPrefix_def)
  then have g1: "GetLicense ?P ?c ''lic-1'' []
     = ((zero_LicenseResponse, Some (ResponseError ''201 Created'' ''['')),
        [stub_request ''https://aidbox.app/rpc'' ''portal.portal/get-license''])"
    using GetLicense_on_error [OF mk] by simp
  have c1: "CreateLicense ?P ?c ''license-one'' ''aidbox'' ''development'' []
     = ((zero_LicenseResponse, Some (ResponseError ''201 Created'' ''['')),
        [stub_request ''https://aidbox.app/rpc'' ''portal.portal/issue-license''])"
    using CreateLicense_on_error [OF mk] by simp
  have g2: "GetLicense ?Q ?d ''lic-1'' []
     = ((zero_LicenseResponse, None),
        [stub_request ''https://aidbox.app/rpc'' ''portal.portal/get-license''])"
    using GetLicense_on_body [OF ok] empty by simp
  have c2: "CreateLicense ?Q ?d ''license-one'' ''aidbox'' ''development'' []
     = ((zero_LicenseResponse, None),
        [stub_request ''https://aidbox.app/rpc'' ''portal.portal/issue-license''])"
    using CreateLicense_on_body [OF ok] empty by simp
  have s: "is_2xx 201" by (simp add: is_2xx_def)
  have u: "snd (yaml_Unmarshal ?P ''['')
       = Some ''yaml: line 1: did not find expected node content''"
    by (simp add: stub_platform_def stub_Unmarshal_def)
  from s u c1 g1 c2 g2 show ?thesis by (simp only: simp_thms)
qed

text \<open>
  Claim C5. When the stored identifier is null, unknown or empty, \<open>Read\<close> and
  \<open>Delete\<close> report their contract-violation error and return at once: the state of the
  response is untouched, the outside world is unchanged, and the result holds for every
  resource \<open>r\<close>, so the client is never called (not even looked at: it may be nil).
\<close>

theorem missing_id_fails_fast:
  assumes "\<not> HasError (Response.Diagnostics resp)"
    and "absent (LicenseResourceModel.ID model)"
  shows "Read r \<lparr>ReadRequest.State = ObjectData model\<rparr> resp w
           = Some (resp\<lparr>Response.Diagnostics := Response.Diagnostics resp
                     @ [ErrorDiagnostic ''No ID Present''
                          ''An ID must be present to read the License'']\<rparr>, w)
         \<and> Delete r \<lparr>DeleteRequest.State = ObjectData model\<rparr> resp w
           = Some (resp\<lparr>Response.Diagnostics := Response.Diagnostics resp
                     @ [ErrorDiagnostic ''No ID Found''
                          ''Cannot delete the License without an ID.'']\<rparr>, w)"
proof -
  have id: "IsUnknown (LicenseResourceModel.ID model) \<or> IsNull (LicenseResourceModel.ID model)
            \<or> ValueString (LicenseResourceModel.ID model) = []"
    using assms(2) unfolding absent_def by blast
  have rd: "Read r \<lparr>ReadRequest.State = ObjectData model\<rparr> resp w
           = Some (resp\<lparr>Response.Diagnostics := Response.Diagnostics resp
                     @ [ErrorDiagnostic ''No ID Present''
                          ''An ID must be present to read the License'']\<rparr>, w)"
    using assms(1) id unfolding Read_def by (auto simp: AddError_fresh)
  have dl: "Delete r \<lparr>DeleteRequest.State = ObjectData model\<rparr> resp w
           = Some (resp\<lparr>Response.Diagnostics := Response.Diagnostics resp
                     @ [ErrorDiagnostic ''No ID Found''
                          ''Cannot delete the License without an ID.'']\<rparr>, w)"
    using assms(1) id unfolding Delete_def by (auto simp: AddError_fresh)
  from rd dl show ?thesis by simp
qed

theorem missing_id_fails_fast_witness:
  "Read \<lparr>client = Some (recording_Client (example_LicenseResponse, None) None),
          endpoint = ''https://aidbox.app/rpc'', token = ''tok''\<rparr>
        \<lparr>ReadRequest.State = ObjectData (example_state\<lparr>LicenseResourceModel.ID := ValueNull\<rparr>)\<rparr>
        \<lparr>Response.State = ObjectData example_state, Response.Diagnostics = []\<rparr> []
     = Some (\<lparr>Response.State = ObjectData example_state,
              Response.Diagnostics = [ErrorDiagnostic ''No ID Present''
                                        ''An ID must be present to read the License'']\<rparr>, [])
   \<and> Delete \<lparr>client = Some (recording_Client (example_LicenseResponse, None) None),
          endpoint = ''https://aidbox.app/rpc'', token = ''tok''\<rparr>
        \<lparr>DeleteRequest.State = ObjectData (example_state\<lparr>LicenseResourceModel.ID := ValueKnown []\<rparr>)\<rparr>
        \<lparr>Response.State = ObjectData example_state, Response.Diagnostics = []\<rparr> []
     = Some (\<lparr>Response.State = ObjectData example_state,
              Response.Diagnostics = [ErrorDiagnostic ''No ID Found''
                                        ''Cannot delete the License without an ID.'']\<rparr>, [])
   \<and> Delete NewLicenseResource
        \<lparr>DeleteRequest.State = ObjectData (example_state\<lparr>LicenseResourceModel.ID := ValueUnknown\<rparr>)\<rparr>
        \<lparr>Response.State = ObjectData example_state, Response.Diagnostics = []\<rparr> (0::nat)
     = Some (\<lparr>Response.State = ObjectData example_state,
              Response.Diagnostics = [ErrorDiagnostic ''No ID Found''
                                        ''Cannot delete the License without an ID.'']\<rparr>, 0)"
  using missing_id_fails_fast
    [where resp = "\<lparr>Response.State = ObjectData example_state, Response.Diagnostics = []\<rparr>"
       and model = "example_state\<lparr>LicenseResourceModel.ID := ValueNull\<rparr>"
       and r = "\<lparr>client = Some (recording_Client (example_LicenseResponse, None) None),
                  endpoint = ''https://aidbox.app/rpc'', token = ''tok''\<rparr>"
       and w = "[]"]
    missing_id_fails_fast
    [where resp = "\<lparr>Response.State = ObjectData example_state, Response.Diagnostics = []\<rparr>"
       and model = "example_state\<lparr>LicenseResourceModel.ID := ValueKnown []\<rparr>"
       and r = "\<lparr>client = Some (recording_Client (example_LicenseResponse, None) None),
                  endpoint = ''https://aidbox.app/rpc'', token = ''tok''\<rparr>"
       and w = "[]"]
    missing_id_fails_fast
    [where resp = "\<lparr>Response.State = ObjectData example_state, Response.Diagnostics = []\<rparr>"
       and model = "example_state\<lparr>LicenseResourceModel.ID := ValueUnknown\<rparr>"
       and r = "NewLicenseResource"
       and w = "0::nat"]
  by (simp add: HasError_def absent_def IsNull_def IsUnknown_def ValueString_def)

text \<open>
  Claim C6. \<open>Update\<close> never calls the client: the outside world is returned as it was
  and the response does not depend on the resource (its client) or on the world. With
  planned data \<open>plan\<close> the stored state becomes exactly \<open>plan\<close>.
\<close>

theorem Update_is_passthrough:
  "snd (Update r req resp w) = w
   \<and> fst (Update r req resp w) = fst (Update r' req resp w')
   \<and> (\<not> HasError (Response.Diagnostics resp)
      \<longrightarrow> Update r \<lparr>UpdateRequest.Plan = ObjectData plan, UpdateRequest.State = prior\<rparr> resp w
            = (resp\<lparr>Response.State := ObjectData plan\<rparr>, w))"
  unfolding Update_def Set_def by (simp add: Let_def split: prod.splits)

theorem Update_is_passthrough_witness:
  "Update \<lparr>client = Some (recording_Client (example_LicenseResponse, None) None),
            endpoint = ''https://aidbox.app/rpc'', token = ''tok''\<rparr>
          \<lparr>UpdateRequest.Plan = ObjectData example_plan,
           UpdateRequest.State = ObjectData example_state\<rparr>
          \<lparr>Response.State = ObjectData example_state, Response.Diagnostics = []\<rparr> []
     = (\<lparr>Response.State = ObjectData example_plan, Response.Diagnostics = []\<rparr>, [])"
  using Update_is_passthrough
    [where resp = "\<lparr>Response.State = ObjectData example_state, Response.Diagnostics = []\<rparr>"
       and plan = example_plan and prior = "ObjectData example_state"
       and req = "\<lparr>UpdateRequest.Plan = ObjectData example_plan,
                    UpdateRequest.State = ObjectData example_state\<rparr>"
       and r' = NewLicenseResource and w' = "[]"
       and r = "\<lparr>client = Some (recording_Client (example_LicenseResponse, None) None),
                  endpoint = ''https://aidbox.app/rpc'', token = ''tok''\<rparr>"
       and w = "[]"]
  by (auto simp: HasError_def)

text \<open>
  Claim C7. \<open>Configure\<close> resolves the configuration: an endpoint that is null, unknown
  or empty becomes \<open>https://aidbox.app/rpc\<close>; a token that is null, unknown or empty is
  taken from the environment variable \<open>AIDBOX_API_TOKEN\<close>; when the token is absent
  and the variable is unset or empty, the error "No API Token Provided" is reported and
  no provider data is set.
\<close>

theorem Configure_resolution:
  assumes "\<not> HasError (ConfigureResponse.Diagnostics resp)"
  shows "Configure P
           \<lparr>Config = ObjectData \<lparr>AidboxProviderModel.Endpoint = cfgEndpoint,
                                 AidboxProviderModel.Token = cfgToken\<rparr>\<rparr> resp =
         (if absent cfgToken \<and> os_Getenv P ''AIDBOX_API_TOKEN'' = []
          then resp\<lparr>ConfigureResponse.Diagnostics :=
                 ConfigureResponse.Diagnostics resp
                 @ [ErrorDiagnostic ''No API Token Provided''
                      ''Please provide a 'token' in the provider configuration or through the 'AIDBOX_API_TOKEN' environment variable.'']\<rparr>
          else
            (let resolvedEndpoint =
                   (if absent cfgEndpoint then ''https://aidbox.app/rpc'' else ValueString cfgEndpoint);
                 resolvedToken =
                   (if absent cfgToken then os_Getenv P ''AIDBOX_API_TOKEN'' else ValueString cfgToken)
             in resp\<lparr>DataSourceData := Some (http_DefaultClient P),
                     ResourceData := Some
                       \<lparr>ProviderData.Endpoint = resolvedEndpoint,
                        ProviderData.Token = resolvedToken,
                        ProviderData.Client =
                          HTTPClient_as_Client P (NewClient P resolvedEndpoint resolvedToken)\<rparr>\<rparr>))"
  using assms unfolding Configure_def absent_def
  by (auto simp: Let_def AddError_fresh NewStringValue_def ValueString_def)

theorem Configure_resolution_witness:
  "map_option ProviderData.Endpoint (ResourceData
     (Configure (stub_platform (http_reply 200 ''200 OK'' ''{}'') [''AIDBOX_API_TOKEN'' \<mapsto> ''env-tok''])
        \<lparr>Config = ObjectData \<lparr>AidboxProviderModel.Endpoint = ValueNull,
                              AidboxProviderModel.Token = ValueKnown []\<rparr>\<rparr>
        \<lparr>ConfigureResponse.Diagnostics = [], DataSourceData = None, ResourceData = None\<rparr>))
     = Some ''https://aidbox.app/rpc''
   \<and> map_option ProviderData.Token (ResourceData
     (Configure (stub_platform (http_reply 200 ''200 OK'' ''{}'') [''AIDBOX_API_TOKEN'' \<mapsto> ''env-tok''])
        \<lparr>Config = ObjectData \<lparr>AidboxProviderModel.Endpoint = ValueNull,
                              AidboxProviderModel.Token = ValueKnown []\<rparr>\<rparr>
        \<lparr>ConfigureResponse.Diagnostics = [], DataSourceData = None, ResourceData = None\<rparr>))
     = Some ''env-tok''
   \<and> map_option ProviderData.Token (ResourceData
     (Configure (stub_platform (http_reply 200 ''200 OK'' ''{}'') [''AIDBOX_API_TOKEN'' \<mapsto> ''env-tok''])
        \<lparr>Config = ObjectData \<lparr>AidboxProviderModel.Endpoint = ValueKnown ''http://localhost/rpc'',
                              AidboxProviderModel.Token = ValueKnown ''cfg-tok''\<rparr>\<rparr>
        \<lparr>ConfigureResponse.Diagnostics = [], DataSourceData = None, ResourceData = None\<rparr>))
     = Some ''cfg-tok''
   \<and> Configure (stub_platform (http_reply 200 ''200 OK'' ''{}'') [''AIDBOX_API_TOKEN'' \<mapsto> []])
        \<lparr>Config = ObjectData \<lparr>AidboxProviderModel.Endpoint = ValueKnown ''http://localhost/rpc'',
                              AidboxProviderModel.Token = ValueUnknown\<rparr>\<rparr>
        \<lparr>ConfigureResponse.Diagnostics = [], DataSourceData = None, ResourceData = None\<rparr>
     = \<lparr>ConfigureResponse.Diagnostics =
          [ErrorDiagnostic ''No API Token Provided''
             ''Please provide a 'token' in the provider configuration or through the 'AIDBOX_API_TOKEN' environment variable.''],
        DataSourceData = None, ResourceData = None\<rparr>"
  using Configure_resolution
    [where resp = "\<lparr>ConfigureResponse.Diagnostics = [], DataSourceData = None, ResourceData = None\<rparr>"
       and P = "stub_platform (http_reply 200 ''200 OK'' ''{}'') [''AIDBOX_API_TOKEN'' \<mapsto> ''env-tok'']"
       and cfgEndpoint = ValueNull and cfgToken = "ValueKnown []"]
    Configure_resolution
    [where resp = "\<lparr>ConfigureResponse.Diagnostics = [], DataSourceData = None, ResourceData = None\<rparr>"
       and P = "stub_platform (http_reply 200 ''200 OK'' ''{}'') [''AIDBOX_API_TOKEN'' \<mapsto> ''env-tok'']"
       and cfgEndpoint = "ValueKnown ''http://localhost/rpc''" and cfgToken = "ValueKnown ''cfg-tok''"]
    Configure_resolution
    [where resp = "\<lparr>ConfigureResponse.Diagnostics = [], DataSourceData = None, ResourceData = None\<rparr>"
       and P = "stub_platform (http_reply 200 ''200 OK'' ''{}'') [''AIDBOX_API_TOKEN'' \<mapsto> []]"
       and cfgEndpoint = "ValueKnown ''http://localhost/rpc''" and cfgToken = ValueUnknown]
  by (simp add: HasError_def absent_def IsNull_def IsUnknown_def ValueString_def os_Getenv_def
      stub_platform_def Let_def)

text \<open>
  Claim C8. The reinterpretation as "not found" is decided by the error text alone, for
  each of the five kinds of error the request path returns: a serialisation or
  request-construction error, a transport error, a body-read error and a protocol error
  (status other than 200, which every non-2xx status is). In each case \<open>GetLicense\<close>
  returns the empty result with a nil error when the text of the error holds the phrase,
  and returns the error unchanged when it does not; the test is the same for every kind.
  A phrase in the wrapped message, or in the retained body, is a phrase in the text.
\<close>

theorem not_found_ignores_error_kind:
  "(request_of P c ''portal.portal/get-license'' (license_id_params c licenseID) = Inl err
    \<longrightarrow> (\<exists>e. err = MarshalError e \<or> err = RequestError e)
        \<and> GetLicense P c licenseID w =
            ((zero_LicenseResponse,
              if Contains (Error err) ''You are not a member of the project'' then None
              else Some err), w))
   \<and> (request_of P c ''portal.portal/get-license'' (license_id_params c licenseID) = Inr rq
      \<and> HTTPClient.Client c rq w = (Inl e, w')
    \<longrightarrow> GetLicense P c licenseID w =
          ((zero_LicenseResponse,
            if Contains (Error (CallError e)) ''You are not a member of the project'' then None
            else Some (CallError e)), w'))
   \<and> (request_of P c ''portal.portal/get-license'' (license_id_params c licenseID) = Inr rq
      \<and> HTTPClient.Client c rq w = (Inr resp, w')
      \<and> http_Response.Body resp = (bodyBytes, Some e)
    \<longrightarrow> GetLicense P c licenseID w =
          ((zero_LicenseResponse,
            if Contains (Error (ReadError e)) ''You are not a member of the project'' then None
            else Some (ReadError e)), w'))
   \<and> (request_of P c ''portal.portal/get-license'' (license_id_params c licenseID) = Inr rq
      \<and> HTTPClient.Client c rq w = (Inr resp, w')
      \<and> http_Response.Body resp = (body, None)
      \<and> StatusCode resp \<noteq> 200
    \<longrightarrow> GetLicense P c licenseID w =
          ((zero_LicenseResponse,
            if Contains (Error (ResponseError (http_Response.Status resp) body))
                 ''You are not a member of the project''
            then None else Some (ResponseError (http_Response.Status resp) body)), w'))
   \<and> (Contains msg ''You are not a member of the project''
    \<longrightarrow> Contains (Error (MarshalError msg)) ''You are not a member of the project''
        \<and> Contains (Error (RequestError msg)) ''You are not a member of the project''
        \<and> Contains (Error (CallError msg)) ''You are not a member of the project''
        \<and> Contains (Error (ReadError msg)) ''You are not a member of the project''
        \<and> Contains (Error (ResponseError status msg)) ''You are not a member of the project'')"
proof (intro conjI impI)
  assume a: "request_of P c ''portal.portal/get-license'' (license_id_params c licenseID) = Inl err"
  then show "\<exists>e. err = MarshalError e \<or> err = RequestError e"
    unfolding request_of_def by (auto split: prod.splits option.splits)
  from a have "makeAPICall P c ''portal.portal/get-license'' (license_id_params c licenseID) w
      = (([], Some err), w)"
    by (rule makeAPICall_build_error)
  then show "GetLicense P c licenseID w =
            ((zero_LicenseResponse,
              if Contains (Error err) ''You are not a member of the project'' then None
              else Some err), w)"
    by (rule GetLicense_on_error)
next
  assume a: "request_of P c ''portal.portal/get-license'' (license_id_params c licenseID) = Inr rq
      \<and> HTTPClient.Client c rq w = (Inl e, w')"
  then have "makeAPICall P c ''portal.portal/get-license'' (license_id_params c licenseID) w
      = (([], Some (CallError e)), w')"
    by (simp add: makeAPICall_call_error)
  then show "GetLicense P c licenseID w =
          ((zero_LicenseResponse,
            if Contains (Error (CallError e)) ''You are not a member of the project'' then None
            else Some (CallError e)), w')"
    by (rule GetLicense_on_error)
next
  assume a: "request_of P c ''portal.portal/get-license'' (license_id_params c licenseID) = Inr rq
      \<and> HTTPClient.Client c rq w = (Inr resp, w')
      \<and> http_Response.Body resp = (bodyBytes, Some e)"
  then have "makeAPICall P c ''portal.portal/get-license'' (license_id_params c licenseID) w
      = (([], Some (ReadError e)), w')"
    using makeAPICall_read_error [of P c "''portal.portal/get-license''"
        "license_id_params c licenseID" rq w resp w' bodyBytes e]
    by simp
  then show "GetLicense P c licenseID w =
          ((zero_LicenseResponse,
            if Contains (Error (ReadError e)) ''You are not a member of the project'' then None
            else Some (ReadError e)), w')"
    by (rule GetLicense_on_error)
next
  assume a: "request_of P c ''portal.portal/get-license'' (license_id_params c licenseID) = Inr rq
      \<and> HTTPClient.Client c rq w = (Inr resp, w')
      \<and> http_Response.Body resp = (body, None)
      \<and> StatusCode resp \<noteq> 200"
  then have "makeAPICall P c ''portal.portal/get-license'' (license_id_params c licenseID) w
      = (([], Some (ResponseError (http_Response.Status resp) body)), w')"
    using makeAPICall_response [of P c "''portal.portal/get-license''"
        "license_id_params c licenseID" rq w resp w' body]
    by simp
  then show "GetLicense P c licenseID w =
          ((zero_LicenseResponse,
            if Contains (Error (ResponseError (http_Response.Status resp) body))
                 ''You are not a member of the project''
            then None else Some (ResponseError (http_Response.Status resp) body)), w')"
    by (rule GetLicense_on_error)
next
  assume t: "Contains msg ''You are not a member of the project''"
  show "Contains (Error (MarshalError msg)) ''You are not a member of the project''"
    using t by (rule Contains_wrapped(1))
  show "Contains (Error (RequestError msg)) ''You are not a member of the project''"
    using t by (rule Contains_wrapped(2))
  show "Contains (Error (CallError msg)) ''You are not a member of the project''"
    using t by (rule Contains_wrapped(3))
  show "Contains (Error (ReadError msg)) ''You are not a member of the project''"
    using t by (rule Contains_wrapped(4))
  show "Contains (Error (ResponseError status msg)) ''You are not a member of the project''"
    using t by (rule Contains_ResponseError_mono)
qed

theorem not_found_ignores_error_kind_witness:
  "GetLicense (stub_platform (http_reply 200 ''200 OK'' ''{}'') Map.empty)
     (NewClient (stub_platform (http_reply 200 ''200 OK'' ''{}'') Map.empty) ''://rpc/You are not a member of the project'' ''tok'') ''lic-1'' []
   = ((zero_LicenseResponse, None), [])
   \<and> GetLicense (stub_platform (http_reply 200 ''200 OK'' ''{}'') Map.empty)
     (NewClient (stub_platform (http_reply 200 ''200 OK'' ''{}'') Map.empty) ''://aidbox.app/rpc'' ''tok'') ''lic-1'' []
   = ((zero_LicenseResponse,
       Some (RequestError ''parse ://aidbox.app/rpc: missing protocol scheme'')), [])
   \<and> GetLicense (stub_platform (Inl ''proxy said: You are not a member of the project'') Map.empty)
     (stub_HTTPClient (Inl ''proxy said: You are not a member of the project'')) ''lic-1'' []
   = ((zero_LicenseResponse, None),
      [stub_request ''https://aidbox.app/rpc'' ''portal.portal/get-license''])
   \<and> GetLicense (stub_platform (Inl ''context deadline exceeded'') Map.empty)
     (stub_HTTPClient (Inl ''context deadline exceeded'')) ''lic-1'' []
   = ((zero_LicenseResponse, Some (CallError ''context deadline exceeded'')),
      [stub_request ''https://aidbox.app/rpc'' ''portal.portal/get-license''])
   \<and> GetLicense (stub_platform (Inr \<lparr>http_Response.Status = ''200 OK'', StatusCode = 200,
            http_Response.Body = (''resu'', Some ''unexpected EOF'')\<rparr>) Map.empty)
     (stub_HTTPClient (Inr \<lparr>http_Response.Status = ''200 OK'', StatusCode = 200,
            http_Response.Body = (''resu'', Some ''unexpected EOF'')\<rparr>)) ''lic-1'' []
   = ((zero_LicenseResponse, Some (ReadError ''unexpected EOF'')),
      [stub_request ''https://aidbox.app/rpc'' ''portal.portal/get-license''])
   \<and> GetLicense (stub_platform (http_reply 401 ''401 Unauthorized'' ''You are not a member of the project'') Map.empty)
     (stub_HTTPClient (http_reply 401 ''401 Unauthorized'' ''You are not a member of the project'')) ''lic-1'' []
   = ((zero_LicenseResponse, None),
      [stub_request ''https://aidbox.app/rpc'' ''portal.portal/get-license''])
   \<and> GetLicense (stub_platform (http_reply 502 ''502 Bad Gateway'' ''upstream down'') Map.empty)
     (stub_HTTPClient (http_reply 502 ''502 Bad Gateway'' ''upstream down'')) ''lic-1'' []
   = ((zero_LicenseResponse, Some (ResponseError ''502 Bad Gateway'' ''upstream down'')),
      [stub_request ''https://aidbox.app/rpc'' ''portal.portal/get-license''])
   \<and> Contains (Error (ReadError ''peer said: You are not a member of the project''))
       ''You are not a member of the project''"
proof -
  have f1: "GetLicense (stub_platform (http_reply 200 ''200 OK'' ''{}'') Map.empty)
     (NewClient (stub_platform (http_reply 200 ''200 OK'' ''{}'') Map.empty) ''://rpc/You are not a member of the project'' ''tok'') ''lic-1'' []
   = ((zero_LicenseResponse, None), [])"
    using not_found_ignores_error_kind
      [where P = "stub_platform (http_reply 200 ''200 OK'' ''{}'') Map.empty"
         and c = "NewClient (stub_platform (http_reply 200 ''200 OK'' ''{}'') Map.empty) ''://rpc/You are not a member of the project'' ''tok''"
         and licenseID = "''lic-1''" and w = "[]" and err = "RequestError ''parse ://rpc/You are not a member of the project: missing protocol scheme''",
       THEN conjunct1]
    by (simp add: stub_defs)
  have f2: "GetLicense (stub_platform (http_reply 200 ''200 OK'' ''{}'') Map.empty)
     (NewClient (stub_platform (http_reply 200 ''200 OK'' ''{}'') Map.empty) ''://aidbox.app/rpc'' ''tok'') ''lic-1'' []
   = ((zero_LicenseResponse,
       Some (RequestError ''parse ://aidbox.app/rpc: missing protocol scheme'')), [])"
    using not_found_ignores_error_kind
      [where P = "stub_platform (http_reply 200 ''200 OK'' ''{}'') Map.empty"
         and c = "NewClient (stub_platform (http_reply 200 ''200 OK'' ''{}'') Map.empty) ''://aidbox.app/rpc'' ''tok''"
         and licenseID = "''lic-1''" and w = "[]" and err = "RequestError ''parse ://aidbox.app/rpc: missing protocol scheme''",
       THEN conjunct1]
    by (simp add: stub_defs)
  have f3: "GetLicense (stub_platform (Inl ''proxy said: You are not a member of the project'') Map.empty)
     (stub_HTTPClient (Inl ''proxy said: You are not a member of the project'')) ''lic-1'' []
   = ((zero_LicenseResponse, None),
      [stub_request ''https://aidbox.app/rpc'' ''portal.portal/get-license''])"
    using not_found_ignores_error_kind
      [where P = "stub_platform (Inl ''proxy said: You are not a member of the project'') Map.empty"
         and c = "stub_HTTPClient (Inl ''proxy said: You are not a member of the project'')"
         and licenseID = "''lic-1''" and w = "[]"
         and rq = "stub_request ''https://aidbox.app/rpc'' ''portal.portal/get-license''"
         and w' = "[stub_request ''https://aidbox.app/rpc'' ''portal.portal/get-license'']"
         and e = "''proxy said: You are not a member of the project''",
       THEN conjunct2, THEN conjunct1]
    by (simp add: stub_defs)
  have f4: "GetLicense (stub_platform (Inl ''context deadline exceeded'') Map.empty)
     (stub_HTTPClient (Inl ''context deadline exceeded'')) ''lic-1'' []
   = ((zero_LicenseResponse, Some (CallError ''context deadline exceeded'')),
      [stub_request ''https://aidbox.app/rpc'' ''portal.portal/get-license''])"
    using not_found_ignores_error_kind
      [where P = "stub_platform (Inl ''context deadline exceeded'') Map.empty"
         and c = "stub_HTTPClient (Inl ''context deadline exceeded'')"
         and licenseID = "''lic-1''" and w = "[]"
         and rq = "stub_request ''https://aidbox.app/rpc'' ''portal.portal/get-license''"
         and w' = "[stub_request ''https://aidbox.app/rpc'' ''portal.portal/get-license'']"
         and e = "''context deadline exceeded''",
       THEN conjunct2, THEN conjunct1]
    by (simp add: stub_defs)
  have f5: "GetLicense (stub_platform (Inr \<lparr>http_Response.Status = ''200 OK'', StatusCode = 200,
            http_Response.Body = (''resu'', Some ''unexpected EOF'')\<rparr>) Map.empty)
     (stub_HTTPClient (Inr \<lparr>http_Response.Status = ''200 OK'', StatusCode = 200,
            http_Response.Body = (''resu'', Some ''unexpected EOF'')\<rparr>)) ''lic-1'' []
   = ((zero_LicenseResponse, Some (ReadError ''unexpected EOF'')),
      [stub_request ''https://aidbox.app/rpc'' ''portal.portal/get-license''])"
    using not_found_ignores_error_kind
      [where P = "stub_platform (Inr \<lparr>http_Response.Status = ''200 OK'', StatusCode = 200,
            http_Response.Body = (''resu'', Some ''unexpected EOF'')\<rparr>) Map.empty"
         and c = "stub_HTTPClient (Inr \<lparr>http_Response.Status = ''200 OK'', StatusCode = 200,
            http_Response.Body = (''resu'', Some ''unexpected EOF'')\<rparr>)"
         and licenseID = "''lic-1''" and w = "[]"
         and rq = "stub_request ''https://aidbox.app/rpc'' ''portal.portal/get-license''"
         and w' = "[stub_request ''https://aidbox.app/rpc'' ''portal.portal/get-license'']"
         and resp = "\<lparr>http_Response.Status = ''200 OK'', StatusCode = 200,
            http_Response.Body = (''resu'', Some ''unexpected EOF'')\<rparr>"
         and bodyBytes = "''resu''" and e = "''unexpected EOF''",
       THEN conjunct2, THEN conjunct2, THEN conjunct1]
    by (simp add: stub_defs)
  have f6: "GetLicense (stub_platform (http_reply 401 ''401 Unauthorized'' ''You are not a member of the project'') Map.empty)
     (stub_HTTPClient (http_reply 401 ''401 Unauthorized'' ''You are not a member of the project'')) ''lic-1'' []
   = ((zero_LicenseResponse, None),
      [stub_request ''https://aidbox.app/rpc'' ''portal.portal/get-license''])"
    using not_found_ignores_error_kind
      [where P = "stub_platform (http_reply 401 ''401 Unauthorized'' ''You are not a member of the project'') Map.empty"
         and c = "stub_HTTPClient (http_reply 401 ''401 Unauthorized'' ''You are not a member of the project'')"
         and licenseID = "''lic-1''" and w = "[]"
         and rq = "stub_request ''https://aidbox.app/rpc'' ''portal.portal/get-license''"
         and w' = "[stub_request ''https://aidbox.app/rpc'' ''portal.portal/get-license'']"
         and resp = "\<lparr>http_Response.Status = ''401 Unauthorized'', StatusCode = 401,
            http_Response.Body = (''You are not a member of the project'', None)\<rparr>"
         and body = "''You are not a member of the project''",
       THEN conjunct2, THEN conjunct2, THEN conjunct2, THEN conjunct1]
    by (simp add: stub_defs)
  have f7: "GetLicense (stub_platform (http_reply 502 ''502 Bad Gateway'' ''upstream down'') Map.empty)
     (stub_HTTPClient (http_reply 502 ''502 Bad Gateway'' ''upstream down'')) ''lic-1'' []
   = ((zero_LicenseResponse, Some (ResponseError ''502 Bad Gateway'' ''upstream down'')),
      [stub_request ''https://aidbox.app/rpc'' ''portal.portal/get-license''])"
    using not_found_ignores_error_kind
      [where P = "stub_platform (http_reply 502 ''502 Bad Gateway'' ''upstream down'') Map.empty"
         and c = "stub_HTTPClient (http_reply 502 ''502 Bad Gateway'' ''upstream down'')"
         and licenseID = "''lic-1''" and w = "[]"
         and rq = "stub_request ''https://aidbox.app/rpc'' ''portal.portal/get-license''"
         and w' = "[stub_request ''https://aidbox.app/rpc'' ''portal.portal/get-license'']"
         and resp = "\<lparr>http_Response.Status = ''502 Bad Gateway'', StatusCode = 502,
            http_Response.Body = (''upstream down'', None)\<rparr>"
         and body = "''upstream down''",
       THEN conjunct2, THEN conjunct2, THEN conjunct2, THEN conjunct1]
    by (simp add: stub_defs)
  have f8: "Contains (Error (ReadError ''peer said: You are not a member of the project''))
       ''You are not a member of the project''"
    using not_found_ignores_error_kind
      [where msg = "''peer said: You are not a member of the project''",
       THEN conjunct2, THEN conjunct2, THEN conjunct2, THEN conjunct2]
    by (simp add: HasPrefix_def)
  from f1 f2 f3 f4 f5 f6 f7 f8 show ?thesis by (simp only: simp_thms)
qed

text \<open>
  Claim C9, as amended. \<open>DeleteLicense\<close> never decodes the response body: its result
  does not depend on \<open>yaml.Unmarshal\<close>, and for every response with status code 200
  whose body was read it returns nil, whatever the body. Its error, if any, is the error
  of the shared request path: a request-construction error (serialising the body or
  building the HTTP request), a transport error (sending the request or reading the
  body) or a protocol error, and never a parse error.
\<close>

theorem DeleteLicense_never_decodes:
  "DeleteLicense (P\<lparr>yaml_Unmarshal := u\<rparr>) c licenseID w = DeleteLicense P c licenseID w
   \<and> (request_of P c ''portal.portal/remove-license'' (license_id_params c licenseID) = Inr rq
      \<and> HTTPClient.Client c rq w = (Inr resp, w')
      \<and> http_Response.Body resp = (body, None)
      \<and> StatusCode resp = 200
    \<longrightarrow> DeleteLicense P c licenseID w = (None, w'))
   \<and> (\<forall>e. fst (DeleteLicense P c licenseID w) \<noteq> Some (ParseError e))
   \<and> (fst (DeleteLicense P c licenseID w) = Some err
    \<longrightarrow> (\<exists>e. err = MarshalError e \<or> err = RequestError e \<or> err = CallError e \<or> err = ReadError e)
        \<or> (\<exists>status text. err = ResponseError status text))"
proof -
  let ?m = "makeAPICall P c ''portal.portal/remove-license'' (license_id_params c licenseID) w"
  have del: "DeleteLicense P c licenseID w = (snd (fst ?m), snd ?m)"
    by (rule DeleteLicense_is_makeAPICall)
  have kinds: "(\<exists>e. x = MarshalError e \<or> x = RequestError e \<or> x = CallError e \<or> x = ReadError e)
        \<or> (\<exists>status text. x = ResponseError status text)"
    if "fst (DeleteLicense P c licenseID w) = Some x" for x
  proof -
    from that have "?m = ((fst (fst ?m), Some x), snd ?m)"
      unfolding del by (simp add: prod_eq_iff)
    then show ?thesis by (rule makeAPICall_error_kinds)
  qed
  have a: "DeleteLicense (P\<lparr>yaml_Unmarshal := u\<rparr>) c licenseID w = DeleteLicense P c licenseID w"
    unfolding DeleteLicense_is_makeAPICall makeAPICall_Unmarshal by simp
  have b: "request_of P c ''portal.portal/remove-license'' (license_id_params c licenseID) = Inr rq
      \<and> HTTPClient.Client c rq w = (Inr resp, w')
      \<and> http_Response.Body resp = (body, None)
      \<and> StatusCode resp = 200
    \<longrightarrow> DeleteLicense P c licenseID w = (None, w')"
    unfolding del
    using makeAPICall_response [of P c "''portal.portal/remove-license''"
        "license_id_params c licenseID" rq w resp w' body]
    by simp
  have c: "\<forall>e. fst (DeleteLicense P c licenseID w) \<noteq> Some (ParseError e)"
    using kinds by blast
  from a b c kinds show ?thesis by blast
qed

theorem DeleteLicense_never_decodes_witness:
  "DeleteLicense (stub_platform (http_reply 200 ''200 OK'' ''['') Map.empty)
     (stub_HTTPClient (http_reply 200 ''200 OK'' ''['')) ''lic-1'' []
   = (None, [stub_request ''https://aidbox.app/rpc'' ''portal.portal/remove-license''])
   \<and> snd (yaml_Unmarshal (stub_platform (http_reply 200 ''200 OK'' ''['') Map.empty) ''['')
       \<noteq> None
   \<and> fst (DeleteLicense
         (stub_platform (http_reply 500 ''500 Internal Server Error'' ''boom'') Map.empty)
         (stub_HTTPClient (http_reply 500 ''500 Internal Server Error'' ''boom'')) ''lic-1'' [])
     = Some (ResponseError ''500 Internal Server Error'' ''boom'')"
proof -
  let ?rq = "stub_request ''https://aidbox.app/rpc'' ''portal.portal/remove-license''"
  have 1: "DeleteLicense (stub_platform (http_reply 200 ''200 OK'' ''['') Map.empty)
     (stub_HTTPClient (http_reply 200 ''200 OK'' ''['')) ''lic-1'' [] = (None, [?rq])"
    using DeleteLicense_never_decodes
      [where P = "stub_platform (http_reply 200 ''200 OK'' ''['') Map.empty"
         and c = "stub_HTTPClient (http_reply 200 ''200 OK'' ''['')"
         and licenseID = "''lic-1''" and w = "[]" and rq = ?rq and w' = "[?rq]"
         and resp = "\<lparr>http_Response.Status = ''200 OK'', StatusCode = 200,
                       http_Response.Body = (''['', None)\<rparr>"
         and body = "''[''",
       THEN conjunct2, THEN conjunct1]
    by (simp add: stub_defs)
  have 2: "snd (yaml_Unmarshal (stub_platform (http_reply 200 ''200 OK'' ''['') Map.empty) ''['')
       \<noteq> None"
    by (simp add: stub_platform_def stub_Unmarshal_def)
  have 3: "fst (DeleteLicense
         (stub_platform (http_reply 500 ''500 Internal Server Error'' ''boom'') Map.empty)
         (stub_HTTPClient (http_reply 500 ''500 Internal Server Error'' ''boom'')) ''lic-1'' [])
     = Some (ResponseError ''500 Internal Server Error'' ''boom'')"
    by (simp add: DeleteLicense_is_makeAPICall makeAPICall_via_request stub_defs)
  from 1 2 3 show ?thesis by (simp only: simp_thms)
qed

text \<open>
  Claim C9 as stated fails: with an endpoint that is not a URL, the delete fails before
  anything is sent (the world stays empty), with a request-construction error, which is
  neither a transport nor a protocol error.
\<close>

theorem DeleteLicense_request_construction_error:
  "DeleteLicense (stub_platform (http_reply 200 ''200 OK'' ''{}'') Map.empty)
     (NewClient (stub_platform (http_reply 200 ''200 OK'' ''{}'') Map.empty)
        ''://aidbox.app/rpc'' ''tok'') ''lic-1'' []
   = (Some (RequestError ''parse ://aidbox.app/rpc: missing protocol scheme''), [])"
  by (simp add: DeleteLicense_is_makeAPICall makeAPICall_via_request stub_defs)

text \<open>
  Claim C10. \<open>mapModelFromAPIResponse\<close> overwrites all seventeen fields of the model,
  the user-supplied \<open>name\<close>, \<open>product\<close> and \<open>type\<close> included, with the values of the
  response's license record and JWT: the result is \<open>response_fields apiResp\<close>, whatever
  the model held before. After a successful \<open>Create\<close> or \<open>Read\<close> the stored state is
  exactly that record, so no planned or prior value survives.
\<close>

theorem response_overwrites_every_field:
  "mapModelFromAPIResponse model apiResp = response_fields apiResp
   \<and> (\<not> HasError (Response.Diagnostics resp)
        \<and> CreateRequest.Plan creq = ObjectData plan
        \<and> client r = Some c
        \<and> Client.CreateLicense c (ValueString (LicenseResourceModel.Name plan))
             (ValueString (LicenseResourceModel.Product plan))
             (ValueString (LicenseResourceModel.Type plan)) w = ((apiResp, None), w')
      \<longrightarrow> Create r creq resp w
            = Some (resp\<lparr>Response.State := ObjectData (response_fields apiResp)\<rparr>, w'))
   \<and> (\<not> HasError (Response.Diagnostics resp)
        \<and> ReadRequest.State rreq = ObjectData prior
        \<and> \<not> absent (LicenseResourceModel.ID prior)
        \<and> client r = Some c
        \<and> Client.GetLicense c (ValueString (LicenseResourceModel.ID prior)) w = ((apiResp, None), w')
      \<longrightarrow> Read r rreq resp w
            = Some (resp\<lparr>Response.State := ObjectData (response_fields apiResp)\<rparr>, w'))"
  using mapModel_response_fields Create_success Read_success by metis

theorem response_overwrites_every_field_witness:
  "Create \<lparr>client = Some (recording_Client (example_LicenseResponse, None) None),
            endpoint = ''https://aidbox.app/rpc'', token = ''tok''\<rparr>
          \<lparr>CreateRequest.Plan = ObjectData example_plan\<rparr>
          \<lparr>Response.State = NullData, Response.Diagnostics = []\<rparr> []
     = Some (\<lparr>Response.State = ObjectData (response_fields example_LicenseResponse),
              Response.Diagnostics = []\<rparr>,
             [CreateCall ''planned-name'' ''planned-product'' ''planned-type''])
   \<and> Read \<lparr>client = Some (recording_Client (example_LicenseResponse, None) None),
            endpoint = ''https://aidbox.app/rpc'', token = ''tok''\<rparr>
          \<lparr>ReadRequest.State = ObjectData example_state\<rparr>
          \<lparr>Response.State = ObjectData example_state, Response.Diagnostics = []\<rparr> []
     = Some (\<lparr>Response.State = ObjectData (response_fields example_LicenseResponse),
              Response.Diagnostics = []\<rparr>,
             [GetCall ''lic-0''])
   \<and> LicenseResourceModel.Name (response_fields example_LicenseResponse) = ValueKnown ''license-one''"
  using response_overwrites_every_field
    [of example_plan example_LicenseResponse
        "\<lparr>Response.State = NullData, Response.Diagnostics = []\<rparr>"
        "\<lparr>CreateRequest.Plan = ObjectData example_plan\<rparr>" example_plan
        "\<lparr>client = Some (recording_Client (example_LicenseResponse, None) None),
          endpoint = ''https://aidbox.app/rpc'', token = ''tok''\<rparr>"
        "recording_Client (example_LicenseResponse, None) None"
        "[]" "[CreateCall ''planned-name'' ''planned-product'' ''planned-type'']"
        "\<lparr>ReadRequest.State = ObjectData example_plan\<rparr>" example_plan]
    response_overwrites_every_field
    [of example_state example_LicenseResponse
        "\<lparr>Response.State = ObjectData example_state, Response.Diagnostics = []\<rparr>"
        "\<lparr>CreateRequest.Plan = ObjectData example_state\<rparr>" example_state
        "\<lparr>client = Some (recording_Client (example_LicenseResponse, None) None),
          endpoint = ''https://aidbox.app/rpc'', token = ''tok''\<rparr>"
        "recording_Client (example_LicenseResponse, None) None"
        "[]" "[GetCall ''lic-0'']"
        "\<lparr>ReadRequest.State = ObjectData example_state\<rparr>" example_state]
  by (simp add: recording_Client_def example_plan_def example_state_def HasError_def
      absent_def IsNull_def IsUnknown_def ValueString_def response_fields_def
      example_LicenseResponse_def example_License_def)

end
